theory Spec2Isabelle
  imports Complex_Main "HOL-Library.AList"
begin

section \<open>Errors\<close>

text \<open>
  The exceptions of the repository, as values. \<open>NoSuchCompanyError\<close> and
  \<open>ScraperError\<close> are the classes of \<^verbatim>\<open>types.ts\<close> (the second carries its
  \<^verbatim>\<open>retryable\<close> field); \<open>TimeoutError\<close> is Playwright's; \<open>ZodError\<close> is what a
  failed schema parse raises; \<open>SqliteError\<close> is the driver's; \<open>Error\<close> is a plain
  JavaScript \<^verbatim>\<open>Error\<close>; \<open>ThrownUndefined\<close> is \<^verbatim>\<open>throw lastError!\<close> with
  \<^verbatim>\<open>lastError\<close> never assigned.
\<close>

datatype error =
    NoSuchCompanyError string
  | ScraperError string bool
  | TimeoutError string
  | ZodError string
  | SqliteError string
  | Error string
  | ThrownUndefined

text \<open>The \<^verbatim>\<open>name\<close> property of a thrown error, which \<^verbatim>\<open>withRetry\<close> inspects.\<close>

fun error_name :: "error \<Rightarrow> string" where
  "error_name (NoSuchCompanyError m) = ''NoSuchCompanyError''"
| "error_name (ScraperError m r) = ''ScraperError''"
| "error_name (TimeoutError m) = ''TimeoutError''"
| "error_name (ZodError m) = ''ZodError''"
| "error_name (SqliteError m) = ''SqliteError''"
| "error_name (Error m) = ''Error''"
| "error_name ThrownUndefined = ''''"

section \<open>Organization numbers\<close>

text \<open>The character class \<^verbatim>\<open>\d\<close> (equivalently \<^verbatim>\<open>[0-9]\<close>) of a JavaScript regex.\<close>

definition is_digit :: "char \<Rightarrow> bool" where
  "is_digit c = (c \<in> set ''0123456789'')"

text \<open>
  \<^verbatim>\<open>\d{n}\<close> at the head of the input: consumes exactly \<open>n\<close> digits and yields what is
  left, or fails.
\<close>

fun match_digits :: "nat \<Rightarrow> string \<Rightarrow> string option" where
  "match_digits 0 s = Some s"
| "match_digits (Suc n) [] = None"
| "match_digits (Suc n) (c # s) = (if is_digit c then match_digits n s else None)"

text \<open>\<^verbatim>\<open>-?\<close>: the remainders to try, the greedy alternative first.\<close>

definition match_opt_hyphen :: "string \<Rightarrow> string list" where
  "match_opt_hyphen s =
     (case s of [] \<Rightarrow> [s] | c # t \<Rightarrow> if c = CHR ''-'' then [t, s] else [s])"

text \<open>The regex \<^verbatim>\<open>/^\d{6}-?\d{4}$/\<close> of \<^verbatim>\<open>OrgNumberSchema\<close>, anchored at both ends.\<close>

definition org_regex_match :: "string \<Rightarrow> bool" where
  "org_regex_match s =
     (case match_digits 6 s of
        None \<Rightarrow> False
      | Some r \<Rightarrow> list_ex (\<lambda>r'. match_digits 4 r' = Some []) (match_opt_hyphen r))"

text \<open>\<^verbatim>\<open>val.replace(/[^0-9]/g, '')\<close>.\<close>

definition strip_non_digits :: "string \<Rightarrow> string" where
  "strip_non_digits s = filter is_digit s"

text \<open>The template \<^verbatim>\<open>`${cleaned.slice(0, 6)}-${cleaned.slice(6)}`\<close>.\<close>

definition format_org :: "string \<Rightarrow> string" where
  "format_org cleaned = take 6 cleaned @ ''-'' @ drop 6 cleaned"

text \<open>
  \<^verbatim>\<open>OrgNumberSchema\<close> (validators.ts): the regex check, then the transform. Every tool
  parses its \<^verbatim>\<open>org_number\<close> argument through this schema.
\<close>

definition OrgNumberSchema :: "string \<Rightarrow> error + string" where
  "OrgNumberSchema val =
     (if org_regex_match val then Inr (format_org (strip_non_digits val))
      else Inl (ZodError ''Invalid Swedish organization number format (expected: XXXXXX-XXXX)''))"

text \<open>\<^verbatim>\<open>normalizeOrgNumber\<close> (parsers.ts), called by the scraper on the validated key.\<close>

definition normalizeOrgNumber :: "string \<Rightarrow> error + string" where
  "normalizeOrgNumber org_no =
     (let cleaned = strip_non_digits org_no in
      if length cleaned \<noteq> 10 then Inl (Error (''Invalid organization number: '' @ org_no))
      else Inr (format_org cleaned))"

text \<open>The canonical textual form of a key: six digits, a hyphen, four digits.\<close>

definition is_canonical :: "string \<Rightarrow> bool" where
  "is_canonical s =
     (length s = 11 \<and> list_all is_digit (take 6 s) \<and> s ! 6 = CHR ''-'' \<and>
      list_all is_digit (drop 7 s))"

section \<open>Data model (types.ts)\<close>

text \<open>
  An optional property (\<^verbatim>\<open>field?: T\<close>) is an \<open>option\<close>: \<open>None\<close> stands for both
  \<^verbatim>\<open>undefined\<close> and \<^verbatim>\<open>null\<close>. A JavaScript \<^verbatim>\<open>number\<close> is a \<open>real\<close> (rounding and
  \<^verbatim>\<open>NaN\<close> are not modelled); a timestamp is the ISO string the code stores. Where two
  interfaces share a field name, the fields of the later one carry a prefix (\<open>p_\<close> for
  \<^verbatim>\<open>PersonDetails\<close>, \<open>a_\<close> for \<^verbatim>\<open>PersonAddress\<close>); \<^verbatim>\<open>id\<close> is \<open>p_id\<close>.
\<close>

record ContactInfo =
  phone :: "string option"
  address :: "string option"
  postal_code :: "string option"
  city :: "string option"
  municipality :: "string option"
  county :: "string option"

record TaxInfo =
  f_skatt :: bool
  vat_registered :: bool
  employer_registered :: bool

record FinancialData =
  period :: "string option"
  revenue :: "real option"
  profit_after_financial :: "real option"
  net_profit :: "real option"
  total_assets :: "real option"
  currency :: string

record IndustryInfo =
  sni_code :: "string option"
  sni_description :: "string option"
  categories :: "string list option"
  activity_description :: "string option"

record CompanyData =
  org_number :: string
  name :: string
  legal_form :: "string option"
  status :: "string option"
  registration_date :: "string option"
  contact :: ContactInfo
  tax_info :: TaxInfo
  financials :: "FinancialData option"
  industry :: IndustryInfo
  bankgiro_number :: "string option"
  has_remarks :: bool
  remarks :: "string option"
  source_url :: string
  scraped_at :: string
  updated_at :: "string option"

record PersonAddress =
  street :: "string option"
  apartment :: "string option"
  a_postal_code :: "string option"
  a_city :: "string option"

record PersonDetails =
  p_id :: "int option"
  p_org_number :: string
  p_name :: string
  role :: string
  personal_number :: "string option"
  age :: "int option"
  p_phone :: "string option"
  p_address :: PersonAddress
  profile_url :: "string option"
  p_scraped_at :: "string option"

text \<open>
  The part of \<^verbatim>\<open>MCPConfig\<close> the modelled code reads. The defaults are those of
  \<^verbatim>\<open>DEFAULT_CONFIG\<close> when the environment sets nothing.
\<close>

record MCPConfig =
  cache_stale_days :: real
  enable_person_details :: bool

definition DEFAULT_CONFIG :: MCPConfig where
  "DEFAULT_CONFIG = \<lparr>cache_stale_days = 7, enable_person_details = True\<rparr>"

section \<open>Cache store (cache/schema.ts, cache/database.ts)\<close>

text \<open>
  A row of table \<^verbatim>\<open>companies\<close>, one field per column. A nullable column is an
  \<open>option\<close> (\<open>None\<close> is SQL \<^verbatim>\<open>NULL\<close>). Column \<^verbatim>\<open>categories\<close> holds the JSON text of a
  string array; the model keeps the array itself, \<^verbatim>\<open>JSON.parse\<close> being the inverse of
  \<^verbatim>\<open>JSON.stringify\<close> on such arrays.
\<close>

record company_row =
  col_org_number :: string
  col_name :: string
  col_legal_form :: "string option"
  col_status :: "string option"
  col_registration_date :: "string option"
  col_phone :: "string option"
  col_address :: "string option"
  col_postal_code :: "string option"
  col_city :: "string option"
  col_municipality :: "string option"
  col_county :: "string option"
  col_f_skatt :: int
  col_vat_registered :: int
  col_employer_registered :: int
  col_financial_period :: "string option"
  col_revenue :: "real option"
  col_profit_after_financial :: "real option"
  col_net_profit :: "real option"
  col_total_assets :: "real option"
  col_currency :: "string option"
  col_sni_code :: "string option"
  col_sni_description :: "string option"
  col_categories :: "string list option"
  col_activity_description :: "string option"
  col_bankgiro_number :: "string option"
  col_has_remarks :: int
  col_remarks :: "string option"
  col_source_url :: string
  col_scraped_at :: string
  col_updated_at :: string

text \<open>A row of table \<^verbatim>\<open>people\<close>.\<close>

record person_row =
  pcol_id :: int
  pcol_org_number :: string
  pcol_name :: string
  pcol_role :: string
  pcol_personal_number :: "string option"
  pcol_age :: "int option"
  pcol_phone :: "string option"
  pcol_street :: "string option"
  pcol_apartment :: "string option"
  pcol_postal_code :: "string option"
  pcol_city :: "string option"
  pcol_profile_url :: "string option"
  pcol_scraped_at :: string

text \<open>
  The database: \<^verbatim>\<open>companies\<close> keyed by its primary key \<^verbatim>\<open>org_number\<close>, the rows of
  \<^verbatim>\<open>people\<close> in insertion order, and the \<^verbatim>\<open>AUTOINCREMENT\<close> counter of \<^verbatim>\<open>people.id\<close>.
  The full-text index is not part of the state; what its triggers can do to a
  statement is said at \<^verbatim>\<open>saveCompany\<close>.
\<close>

record database =
  companies :: "string \<rightharpoonup> company_row"
  people :: "person_row list"
  next_person_id :: int

definition empty_database :: database where
  "empty_database = \<lparr>companies = Map.empty, people = [], next_person_id = 1\<rparr>"

text \<open>
  JavaScript's \<^verbatim>\<open>x || null\<close> on an optional string, an optional number and an optional
  integer: the falsy values (\<^verbatim>\<open>undefined\<close>, \<^verbatim>\<open>null\<close>, the empty string, zero) become
  \<^verbatim>\<open>null\<close>.
\<close>

definition or_null_str :: "string option \<Rightarrow> string option" where
  "or_null_str v = (case v of None \<Rightarrow> None | Some s \<Rightarrow> if s = [] then None else Some s)"

definition or_null_num :: "real option \<Rightarrow> real option" where
  "or_null_num v = (case v of None \<Rightarrow> None | Some x \<Rightarrow> if x = 0 then None else Some x)"

definition or_null_int :: "int option \<Rightarrow> int option" where
  "or_null_int v = (case v of None \<Rightarrow> None | Some x \<Rightarrow> if x = 0 then None else Some x)"

text \<open>\<^verbatim>\<open>company.financials?.f\<close>: the field of the snapshot, if there is a snapshot.\<close>

definition fin_field :: "(FinancialData \<Rightarrow> 'a option) \<Rightarrow> FinancialData option \<Rightarrow> 'a option" where
  "fin_field f fo = (case fo of None \<Rightarrow> None | Some fd \<Rightarrow> f fd)"

text \<open>
  The values \<^verbatim>\<open>saveCompany\<close> binds to the thirty placeholders of its statement, as a
  row (SQL's \<^verbatim>\<open>excluded\<close> row); \<open>now_iso\<close> is \<^verbatim>\<open>new Date().toISOString()\<close>.
\<close>

definition bound_row :: "string \<Rightarrow> CompanyData \<Rightarrow> company_row" where
  "bound_row now_iso company =
     \<lparr>col_org_number = org_number company,
      col_name = name company,
      col_legal_form = or_null_str (legal_form company),
      col_status = or_null_str (status company),
      col_registration_date = or_null_str (registration_date company),
      col_phone = or_null_str (phone (contact company)),
      col_address = or_null_str (address (contact company)),
      col_postal_code = or_null_str (postal_code (contact company)),
      col_city = or_null_str (city (contact company)),
      col_municipality = or_null_str (municipality (contact company)),
      col_county = or_null_str (county (contact company)),
      col_f_skatt = (if f_skatt (tax_info company) then 1 else 0),
      col_vat_registered = (if vat_registered (tax_info company) then 1 else 0),
      col_employer_registered = (if employer_registered (tax_info company) then 1 else 0),
      col_financial_period = or_null_str (fin_field period (financials company)),
      col_revenue = or_null_num (fin_field revenue (financials company)),
      col_profit_after_financial = or_null_num (fin_field profit_after_financial (financials company)),
      col_net_profit = or_null_num (fin_field net_profit (financials company)),
      col_total_assets = or_null_num (fin_field total_assets (financials company)),
      col_currency =
        Some (case or_null_str (fin_field (\<lambda>fd. Some (currency fd)) (financials company)) of
                None \<Rightarrow> ''SEK'' | Some cur \<Rightarrow> cur),
      col_sni_code = or_null_str (sni_code (industry company)),
      col_sni_description = or_null_str (sni_description (industry company)),
      col_categories =
        Some (case categories (industry company) of None \<Rightarrow> [] | Some cs \<Rightarrow> cs),
      col_activity_description = or_null_str (activity_description (industry company)),
      col_bankgiro_number = or_null_str (bankgiro_number company),
      col_has_remarks = (if has_remarks company then 1 else 0),
      col_remarks = or_null_str (remarks company),
      col_source_url = source_url company,
      col_scraped_at = scraped_at company,
      col_updated_at = now_iso\<rparr>"

text \<open>
  The \<^verbatim>\<open>ON CONFLICT(org_number) DO UPDATE SET\<close> clause of \<^verbatim>\<open>saveCompany\<close>: the
  assignments of the statement, in its order, applied to the stored row.
\<close>

definition on_conflict_update :: "company_row \<Rightarrow> company_row \<Rightarrow> company_row" where
  "on_conflict_update excluded stored =
     stored\<lparr>col_name := col_name excluded,
       col_legal_form := col_legal_form excluded,
       col_status := col_status excluded,
       col_registration_date := col_registration_date excluded,
       col_phone := col_phone excluded,
       col_address := col_address excluded,
       col_postal_code := col_postal_code excluded,
       col_city := col_city excluded,
       col_municipality := col_municipality excluded,
       col_county := col_county excluded,
       col_f_skatt := col_f_skatt excluded,
       col_vat_registered := col_vat_registered excluded,
       col_employer_registered := col_employer_registered excluded,
       col_financial_period := col_financial_period excluded,
       col_revenue := col_revenue excluded,
       col_profit_after_financial := col_profit_after_financial excluded,
       col_net_profit := col_net_profit excluded,
       col_total_assets := col_total_assets excluded,
       col_currency := col_currency excluded,
       col_sni_code := col_sni_code excluded,
       col_sni_description := col_sni_description excluded,
       col_categories := col_categories excluded,
       col_activity_description := col_activity_description excluded,
       col_bankgiro_number := col_bankgiro_number excluded,
       col_has_remarks := col_has_remarks excluded,
       col_remarks := col_remarks excluded,
       col_source_url := col_source_url excluded,
       col_updated_at := col_updated_at excluded\<rparr>"

text \<open>
  \<^verbatim>\<open>saveCompany\<close>: insert the bound row, or on a key conflict update the stored one.
  The update fires the trigger \<^verbatim>\<open>companies_fts_update\<close> of schema.ts, whose statement
  on the external-content full-text index can raise (SQLite then reports "database
  disk image is malformed"); the statement of \<^verbatim>\<open>saveCompany\<close> is then undone and the
  stored row stays. Whether the trigger's statement goes through depends on the state
  of the index, which is SQLite's and not the repository's: it is the parameter
  \<open>trigger_ok\<close> of the call. The result is the error raised, if any, and the database.
\<close>

definition saveCompany :: "bool \<Rightarrow> string \<Rightarrow> CompanyData \<Rightarrow> database \<Rightarrow> error option \<times> database" where
  "saveCompany trigger_ok now_iso company db =
     (let excluded = bound_row now_iso company in
      case companies db (col_org_number excluded) of
        None \<Rightarrow>
          (None, db\<lparr>companies := (companies db)(col_org_number excluded \<mapsto> excluded)\<rparr>)
      | Some stored \<Rightarrow>
          if trigger_ok
          then (None, db\<lparr>companies := (companies db)(col_org_number excluded \<mapsto>
                          on_conflict_update excluded stored)\<rparr>)
          else (Some (SqliteError ''database disk image is malformed''), db))"

text \<open>\<^verbatim>\<open>rowToCompany\<close>. \<^verbatim>\<open>row.revenue ? {...} : undefined\<close> tests the truthiness of the number.\<close>

definition rowToCompany :: "company_row \<Rightarrow> CompanyData" where
  "rowToCompany row =
     \<lparr>org_number = col_org_number row,
      name = col_name row,
      legal_form = col_legal_form row,
      status = col_status row,
      registration_date = col_registration_date row,
      contact = \<lparr>phone = col_phone row, address = col_address row,
                  postal_code = col_postal_code row, city = col_city row,
                  municipality = col_municipality row, county = col_county row\<rparr>,
      tax_info = \<lparr>f_skatt = (col_f_skatt row \<noteq> 0),
                   vat_registered = (col_vat_registered row \<noteq> 0),
                   employer_registered = (col_employer_registered row \<noteq> 0)\<rparr>,
      financials =
        (if or_null_num (col_revenue row) \<noteq> None
         then Some \<lparr>period = col_financial_period row,
                     revenue = col_revenue row,
                     profit_after_financial = col_profit_after_financial row,
                     net_profit = col_net_profit row,
                     total_assets = col_total_assets row,
                     currency = (case or_null_str (col_currency row) of
                                   None \<Rightarrow> ''SEK'' | Some cur \<Rightarrow> cur)\<rparr>
         else None),
      industry = \<lparr>sni_code = col_sni_code row,
                   sni_description = col_sni_description row,
                   categories = Some (case col_categories row of None \<Rightarrow> [] | Some cs \<Rightarrow> cs),
                   activity_description = col_activity_description row\<rparr>,
      bankgiro_number = col_bankgiro_number row,
      has_remarks = (col_has_remarks row \<noteq> 0),
      remarks = col_remarks row,
      source_url = col_source_url row,
      scraped_at = col_scraped_at row,
      updated_at = Some (col_updated_at row)\<rparr>"

text \<open>\<^verbatim>\<open>getCompany\<close>.\<close>

definition getCompany :: "database \<Rightarrow> string \<Rightarrow> CompanyData option" where
  "getCompany db org_no =
     (case companies db org_no of None \<Rightarrow> None | Some row \<Rightarrow> Some (rowToCompany row))"

text \<open>\<^verbatim>\<open>rowToPerson\<close> and \<^verbatim>\<open>getBoardMembers\<close>.\<close>

definition rowToPerson :: "person_row \<Rightarrow> PersonDetails" where
  "rowToPerson row =
     \<lparr>p_id = Some (pcol_id row),
      p_org_number = pcol_org_number row,
      p_name = pcol_name row,
      role = pcol_role row,
      personal_number = pcol_personal_number row,
      age = pcol_age row,
      p_phone = pcol_phone row,
      p_address = \<lparr>street = pcol_street row, apartment = pcol_apartment row,
                    a_postal_code = pcol_postal_code row, a_city = pcol_city row\<rparr>,
      profile_url = pcol_profile_url row,
      p_scraped_at = Some (pcol_scraped_at row)\<rparr>"

definition getBoardMembers :: "database \<Rightarrow> string \<Rightarrow> PersonDetails list" where
  "getBoardMembers db org_no =
     map rowToPerson (filter (\<lambda>row. pcol_org_number row = org_no) (people db))"

text \<open>One \<^verbatim>\<open>stmt.run(...)\<close> of the insert loop of \<^verbatim>\<open>saveBoardMembers\<close>.\<close>

definition insert_person :: "string \<Rightarrow> database \<Rightarrow> PersonDetails \<Rightarrow> database" where
  "insert_person now_iso db member =
     db\<lparr>people := people db @
           [\<lparr>pcol_id = next_person_id db,
             pcol_org_number = p_org_number member,
             pcol_name = p_name member,
             pcol_role = role member,
             pcol_personal_number = or_null_str (personal_number member),
             pcol_age = or_null_int (age member),
             pcol_phone = or_null_str (p_phone member),
             pcol_street = or_null_str (street (p_address member)),
             pcol_apartment = or_null_str (apartment (p_address member)),
             pcol_postal_code = or_null_str (a_postal_code (p_address member)),
             pcol_city = or_null_str (a_city (p_address member)),
             pcol_profile_url = or_null_str (profile_url member),
             pcol_scraped_at = (case or_null_str (p_scraped_at member) of
                                  None \<Rightarrow> now_iso | Some t \<Rightarrow> t)\<rparr>],
        next_person_id := next_person_id db + 1\<rparr>"

text \<open>
  \<^verbatim>\<open>saveBoardMembers\<close>: the delete, the early return on an empty list, then the inserts
  in one transaction. With \<^verbatim>\<open>foreign_keys = ON\<close> an insert whose \<^verbatim>\<open>org_number\<close> has no
  row in \<^verbatim>\<open>companies\<close> raises and the transaction is rolled back; the delete, made
  before the transaction, stays.
\<close>

definition saveBoardMembers ::
  "string \<Rightarrow> string \<Rightarrow> PersonDetails list \<Rightarrow> database \<Rightarrow> error option \<times> database" where
  "saveBoardMembers now_iso org_no members db =
     (let db1 = db\<lparr>people := filter (\<lambda>row. pcol_org_number row \<noteq> org_no) (people db)\<rparr> in
      if members = [] then (None, db1)
      else if list_all (\<lambda>m. companies db1 (p_org_number m) \<noteq> None) members
      then (None, foldl (insert_person now_iso) db1 members)
      else (Some (SqliteError ''FOREIGN KEY constraint failed''), db1))"

text \<open>
  \<^verbatim>\<open>isCacheStale\<close>. \<open>julianday\<close> is SQLite's function on the stored timestamp text (\<open>None\<close>
  where SQLite yields \<^verbatim>\<open>NULL\<close>) and \<open>now\<close> is \<^verbatim>\<open>julianday('now')\<close>; both are parameters.
  A \<^verbatim>\<open>NULL\<close> age compares as \<^verbatim>\<open>null > stale_days\<close>, which is false.
\<close>

definition age_days :: "(string \<Rightarrow> real option) \<Rightarrow> real \<Rightarrow> company_row \<Rightarrow> real option" where
  "age_days julianday now row =
     (case julianday (col_scraped_at row) of None \<Rightarrow> None | Some t \<Rightarrow> Some (now - t))"

definition isCacheStale ::
  "(string \<Rightarrow> real option) \<Rightarrow> real \<Rightarrow> database \<Rightarrow> string \<Rightarrow> real \<Rightarrow> bool" where
  "isCacheStale julianday now db org_no stale_days =
     (case companies db org_no of
        None \<Rightarrow> True
      | Some row \<Rightarrow> (case age_days julianday now row of None \<Rightarrow> False | Some a \<Rightarrow> a > stale_days))"

section \<open>Tools (server/tools.ts)\<close>

text \<open>The outcome of the cache check that opens \<^verbatim>\<open>searchCompanyByOrgNumber\<close>.\<close>

datatype decision = Serve CompanyData | Fetch

text \<open>
  Lines 24 to 27 of \<^verbatim>\<open>searchCompanyByOrgNumber\<close>: \<^verbatim>\<open>cached\<close>, \<^verbatim>\<open>is_stale\<close> and the test
  \<^verbatim>\<open>cached && !force_refresh && !is_stale\<close>.
\<close>

definition cache_decision ::
  "(string \<Rightarrow> real option) \<Rightarrow> real \<Rightarrow> MCPConfig \<Rightarrow> database \<Rightarrow> string \<Rightarrow> bool \<Rightarrow> decision" where
  "cache_decision julianday now cfg db org_no force_refresh =
     (let cached = getCompany db org_no;
          is_stale = (if cached \<noteq> None
                      then isCacheStale julianday now db org_no (cache_stale_days cfg)
                      else True)
      in case cached of
           None \<Rightarrow> Fetch
         | Some c \<Rightarrow> if \<not> force_refresh \<and> \<not> is_stale then Serve c else Fetch)"

text \<open>
  The arguments of the tool before validation, and \<^verbatim>\<open>SearchCompanyByOrgNumberInput.parse\<close>
  with its defaults.
\<close>

record search_args =
  arg_org_number :: string
  arg_force_refresh :: "bool option"
  arg_include_board :: "bool option"

definition SearchCompanyByOrgNumberInput :: "search_args \<Rightarrow> error + string \<times> bool \<times> bool" where
  "SearchCompanyByOrgNumberInput args =
     (case OrgNumberSchema (arg_org_number args) of
        Inl e \<Rightarrow> Inl e
      | Inr org_no \<Rightarrow>
          Inr (org_no,
               (case arg_force_refresh args of None \<Rightarrow> False | Some b \<Rightarrow> b),
               (case arg_include_board args of None \<Rightarrow> True | Some b \<Rightarrow> b)))"

text \<open>The tool's reply (\<^verbatim>\<open>cache_age_days\<close>, a display value, is left out).\<close>

record search_reply =
  success :: bool
  cached :: bool
  reply_company :: CompanyData
  reply_board_members :: "PersonDetails list option"

text \<open>
  \<^verbatim>\<open>searchCompanyByOrgNumber\<close>. \<open>scrape\<close> stands for \<^verbatim>\<open>merinfoScraper.scrapeCompany\<close>:
  what the live fetch returns or raises for a key and the \<^verbatim>\<open>include_board\<close> flag.
  \<open>trigger_ok\<close> is passed to \<^verbatim>\<open>saveCompany\<close>. An error raised by \<^verbatim>\<open>saveCompany\<close>
  propagates; one raised by \<^verbatim>\<open>saveBoardMembers\<close> propagates after the company was saved.
\<close>

definition searchCompanyByOrgNumber ::
  "(string \<Rightarrow> real option) \<Rightarrow> real \<Rightarrow> string \<Rightarrow> MCPConfig \<Rightarrow> bool \<Rightarrow>
   (string \<Rightarrow> bool \<Rightarrow> error + CompanyData \<times> PersonDetails list) \<Rightarrow>
   search_args \<Rightarrow> database \<Rightarrow> (error + search_reply) \<times> database" where
  "searchCompanyByOrgNumber julianday now now_iso cfg trigger_ok scrape args db =
     (case SearchCompanyByOrgNumberInput args of
        Inl e \<Rightarrow> (Inl e, db)
      | Inr (org_no, force_refresh, include_board) \<Rightarrow>
          (case cache_decision julianday now cfg db org_no force_refresh of
             Serve c \<Rightarrow>
               (Inr \<lparr>success = True, cached = True, reply_company = c,
                      reply_board_members =
                        (if include_board then Some (getBoardMembers db org_no) else None)\<rparr>,
                db)
           | Fetch \<Rightarrow>
               (case scrape org_no include_board of
                  Inl e \<Rightarrow> (Inl e, db)
                | Inr (company, board_members) \<Rightarrow>
                    (case saveCompany trigger_ok now_iso company db of
                       (Some e, db0) \<Rightarrow> (Inl e, db0)
                     | (None, db1) \<Rightarrow>
                         (let (err, db2) =
                                (if include_board \<and> length board_members > 0
                                 then saveBoardMembers now_iso org_no board_members db1
                                 else (None, db1))
                          in case err of
                               Some e \<Rightarrow> (Inl e, db2)
                             | None \<Rightarrow>
                                 (Inr \<lparr>success = True, cached = False, reply_company = company,
                                        reply_board_members =
                                          (if include_board then Some board_members else None)\<rparr>,
                                  db2))))))"

text \<open>
  \<^verbatim>\<open>updateCompanyData\<close>, the sibling path: it saves the company and calls
  \<^verbatim>\<open>saveBoardMembers\<close> whatever the length of the list.
\<close>

definition updateCompanyData ::
  "string \<Rightarrow> bool \<Rightarrow> (string \<Rightarrow> bool \<Rightarrow> error + CompanyData \<times> PersonDetails list) \<Rightarrow>
   string \<Rightarrow> database \<Rightarrow> (error + CompanyData \<times> PersonDetails list) \<times> database" where
  "updateCompanyData now_iso trigger_ok scrape raw_org_number db =
     (case OrgNumberSchema raw_org_number of
        Inl e \<Rightarrow> (Inl e, db)
      | Inr org_no \<Rightarrow>
          (case scrape org_no True of
             Inl e \<Rightarrow> (Inl e, db)
           | Inr (company, board_members) \<Rightarrow>
               (case saveCompany trigger_ok now_iso company db of
                  (Some e, db0) \<Rightarrow> (Inl e, db0)
                | (None, db1) \<Rightarrow>
                    (let (err, db2) = saveBoardMembers now_iso org_no board_members db1
                     in case err of
                          Some e \<Rightarrow> (Inl e, db2)
                        | None \<Rightarrow> (Inr (company, board_members), db2)))))"

section \<open>Backoff and retry (utils/rate-limiter.ts)\<close>

record BackoffStrategy =
  initialDelayMs :: real
  maxDelayMs :: real
  multiplier :: real
  jitter :: bool

text \<open>The constructor's defaults: \<^verbatim>\<open>new BackoffStrategy()\<close>.\<close>

definition default_backoff :: BackoffStrategy where
  "default_backoff =
     \<lparr>initialDelayMs = 2000, maxDelayMs = 30000, multiplier = 2, jitter = True\<rparr>"

text \<open>
  The arithmetic of the code is that of IEEE doubles: every operation yields the
  rounded exact result. The rounding is a parameter \<open>fl\<close>, of which only two facts are
  used: it is monotone, and it leaves the integers up to \<open>2 ^ 53\<close> in absolute value
  as they are. Rounding to the nearest double is such a function; so is the identity.
\<close>

definition rounding :: "(real \<Rightarrow> real) \<Rightarrow> bool" where
  "rounding fl \<longleftrightarrow>
     (\<forall>x y. x \<le> y \<longrightarrow> fl x \<le> fl y)
     \<and> (\<forall>n::int. \<bar>n\<bar> \<le> 2 ^ 53 \<longrightarrow> fl (real_of_int n) = real_of_int n)"

text \<open>
  \<^verbatim>\<open>getDelay\<close>, each arithmetic result rounded by \<open>fl\<close> (\<^verbatim>\<open>Math.min\<close> and \<^verbatim>\<open>Math.max\<close> are
  exact). \<open>rnd\<close> is the value \<^verbatim>\<open>Math.random()\<close> returns, a number in \<open>[0, 1)\<close>; the
  expression \<^verbatim>\<open>Math.random() * jitterAmount * 2 - jitterAmount\<close> associates to the left.
\<close>

definition getDelay :: "(real \<Rightarrow> real) \<Rightarrow> BackoffStrategy \<Rightarrow> real \<Rightarrow> int \<Rightarrow> real" where
  "getDelay fl b rnd attempt =
     (let baseDelay =
            min (fl (initialDelayMs b * fl (power_int (multiplier b) (attempt - 1))))
              (maxDelayMs b)
      in if \<not> jitter b then baseDelay
         else (let jitterAmount = fl (baseDelay * 0.25);
                   jit = fl (fl (fl (rnd * jitterAmount) * 2) - jitterAmount)
               in max 0 (fl (baseDelay + jit))))"

text \<open>
  \<^verbatim>\<open>withRetry\<close>, the loop from a given attempt number on. The operation and the two
  callbacks act on a state \<open>'s\<close>; \<open>backoff_wait\<close> is \<^verbatim>\<open>backoff.wait(attempt)\<close>. The
  test for a retry reads the error's \<^verbatim>\<open>name\<close> only. After the loop comes
  \<^verbatim>\<open>throw lastError!\<close>, reached only when the loop body never ran.
\<close>

function withRetry_from ::
  "('s \<Rightarrow> (error + 'a) \<times> 's) \<Rightarrow> nat \<Rightarrow> string list \<Rightarrow> (nat \<Rightarrow> error \<Rightarrow> 's \<Rightarrow> 's) \<Rightarrow>
   (nat \<Rightarrow> 's \<Rightarrow> 's) \<Rightarrow> nat \<Rightarrow> 's \<Rightarrow> (error + 'a) \<times> 's" where
  "withRetry_from operation maxAttempts retryableErrors onRetry backoff_wait attempt s =
     (if attempt \<le> maxAttempts then
        (case operation s of
           (Inr result, s1) \<Rightarrow> (Inr result, s1)
         | (Inl lastError, s1) \<Rightarrow>
             (let isLastAttempt = (attempt = maxAttempts);
                  isRetryable = (error_name lastError \<in> set retryableErrors)
              in if isLastAttempt \<or> \<not> isRetryable then (Inl lastError, s1)
                 else withRetry_from operation maxAttempts retryableErrors onRetry backoff_wait
                        (attempt + 1) (backoff_wait attempt (onRetry attempt lastError s1))))
      else (Inl ThrownUndefined, s))"
  by pat_completeness auto
termination
  by (relation "measure (\<lambda>(operation, maxAttempts, retryableErrors, onRetry, backoff_wait, attempt, s).
        Suc maxAttempts - attempt)") auto

declare withRetry_from.simps [simp del]

definition withRetry ::
  "('s \<Rightarrow> (error + 'a) \<times> 's) \<Rightarrow> nat \<Rightarrow> string list \<Rightarrow> (nat \<Rightarrow> error \<Rightarrow> 's \<Rightarrow> 's) \<Rightarrow>
   (nat \<Rightarrow> 's \<Rightarrow> 's) \<Rightarrow> 's \<Rightarrow> (error + 'a) \<times> 's" where
  "withRetry operation maxAttempts retryableErrors onRetry backoff_wait s =
     withRetry_from operation maxAttempts retryableErrors onRetry backoff_wait 1 s"

section \<open>Session pool (scraper/browser.ts)\<close>

text \<open>
  A \<^verbatim>\<open>BrowserContext\<close> is an opaque handle, a number here. \<open>browser\<close> says whether
  \<^verbatim>\<open>this.browser\<close> is set; \<open>contextAge\<close> is the \<^verbatim>\<open>Map\<close> from context to timestamp, in
  insertion order. \<open>next_context\<close> supplies the handle of the next
  \<^verbatim>\<open>browser.newContext()\<close>, and \<open>closed_contexts\<close> logs the calls of
  \<^verbatim>\<open>context.close()\<close>. Launching the browser is taken to succeed.
\<close>

record BrowserPool =
  browser :: bool
  contexts :: "nat list"
  contextAge :: "(nat \<times> int) list"
  next_context :: nat
  closed_contexts :: "nat list"

definition maxContexts :: nat where
  "maxContexts = 3"

definition maxContextAgeMs :: int where
  "maxContextAgeMs = 600000"

definition new_pool :: BrowserPool where
  "new_pool = \<lparr>browser = False, contexts = [], contextAge = [], next_context = 0,
               closed_contexts = []\<rparr>"

definition initialize :: "BrowserPool \<Rightarrow> BrowserPool" where
  "initialize p = (if browser p then p else p\<lparr>browser := True\<rparr>)"

text \<open>One round of the second loop of \<^verbatim>\<open>cleanupOldContexts\<close>.\<close>

definition close_and_remove :: "BrowserPool \<Rightarrow> nat \<Rightarrow> BrowserPool" where
  "close_and_remove p c =
     p\<lparr>closed_contexts := closed_contexts p @ [c],
       contexts := filter (\<lambda>x. x \<noteq> c) (contexts p),
       contextAge := AList.delete c (contextAge p)\<rparr>"

text \<open>\<^verbatim>\<open>cleanupOldContexts\<close>; \<open>now\<close> is its reading of \<^verbatim>\<open>Date.now()\<close>.\<close>

definition cleanupOldContexts :: "int \<Rightarrow> BrowserPool \<Rightarrow> BrowserPool" where
  "cleanupOldContexts now p =
     (let contextsToRemove =
            map fst (filter (\<lambda>(c, t). now - t > maxContextAgeMs) (contextAge p))
      in foldl close_and_remove p contextsToRemove)"

text \<open>\<^verbatim>\<open>createContext\<close>: a fresh handle.\<close>

definition createContext :: "BrowserPool \<Rightarrow> nat \<times> BrowserPool" where
  "createContext p = (next_context p, p\<lparr>next_context := Suc (next_context p)\<rparr>)"

text \<open>
  \<^verbatim>\<open>acquireContext\<close>; \<open>now\<close> is the clock reading of the cleanup and \<open>now'\<close> the later
  one stored with a new context. In the last branch the list holds \<open>maxContexts\<close>
  elements at least, so \<^verbatim>\<open>this.contexts[0]\<close> exists.
\<close>

definition acquireContext :: "int \<Rightarrow> int \<Rightarrow> BrowserPool \<Rightarrow> nat \<times> BrowserPool" where
  "acquireContext now now' p =
     (let p1 = cleanupOldContexts now (initialize p) in
      if length (contexts p1) < maxContexts then
        (let (c, p2) = createContext p1 in
         (c, p2\<lparr>contexts := contexts p2 @ [c],
                contextAge := AList.update c now' (contextAge p2)\<rparr>))
      else (contexts p1 ! 0, p1))"

text \<open>\<^verbatim>\<open>releaseContext\<close>: "Just update timestamp, keep context for reuse".\<close>

definition releaseContext :: "int \<Rightarrow> nat \<Rightarrow> BrowserPool \<Rightarrow> BrowserPool" where
  "releaseContext now c p = p\<lparr>contextAge := AList.update c now (contextAge p)\<rparr>"

definition closeAll :: "BrowserPool \<Rightarrow> BrowserPool" where
  "closeAll p =
     p\<lparr>closed_contexts := closed_contexts p @ contexts p,
       browser := False, contexts := [], contextAge := []\<rparr>"

text \<open>\<^verbatim>\<open>restart\<close> (the five seconds it sleeps are not modelled).\<close>

definition restart :: "BrowserPool \<Rightarrow> BrowserPool" where
  "restart p = initialize ((closeAll p)\<lparr>browser := False, contexts := [], contextAge := []\<rparr>)"


text \<open>The contexts \<^verbatim>\<open>cleanupOldContexts\<close> collects in its first loop.\<close>

definition expired :: "int \<Rightarrow> BrowserPool \<Rightarrow> nat list" where
  "expired now p = map fst (filter (\<lambda>(c, t). now - t > maxContextAgeMs) (contextAge p))"

text \<open>
  The pool's methods are \<^verbatim>\<open>async\<close>: a call runs up to an \<^verbatim>\<open>await\<close>, and while it is
  suspended other calls on the same pool run. What the methods do to the pool
  between two suspensions, as actions:
  \<^item> \<open>SetBrowser\<close>: \<^verbatim>\<open>this.browser = ...\<close> when the launch in \<^verbatim>\<open>initialize\<close> has returned;
  \<^item> \<open>Remove c\<close>: one round of the second loop of \<^verbatim>\<open>cleanupOldContexts\<close>, after its
    \<^verbatim>\<open>await context.close()\<close>;
  \<^item> \<open>Allocate\<close>: \<^verbatim>\<open>browser.newContext()\<close> in \<^verbatim>\<open>createContext\<close>;
  \<^item> \<open>Push c t\<close>: the two statements of \<^verbatim>\<open>acquireContext\<close> after
    \<^verbatim>\<open>await this.createContext()\<close>, which push the context and store the clock reading;
  \<^item> \<open>Release t c\<close>: \<^verbatim>\<open>releaseContext\<close>;
  \<^item> \<open>Close c\<close>: one round of the loop of \<^verbatim>\<open>closeAll\<close>;
  \<^item> \<open>Reset\<close>: the three assignments that end \<^verbatim>\<open>closeAll\<close> and follow it in \<^verbatim>\<open>restart\<close>.

  The tests and the reads of the methods change nothing. Every run of calls on a
  pool, however they overlap, is a list of these actions.
\<close>

datatype pool_action =
    SetBrowser
  | Remove nat
  | Allocate
  | Push nat int
  | Release int nat
  | Close nat
  | Reset

fun apply_action :: "BrowserPool \<Rightarrow> pool_action \<Rightarrow> BrowserPool" where
  "apply_action p SetBrowser = p\<lparr>browser := True\<rparr>"
| "apply_action p (Remove c) = close_and_remove p c"
| "apply_action p Allocate = snd (createContext p)"
| "apply_action p (Push c t) =
     p\<lparr>contexts := contexts p @ [c], contextAge := AList.update c t (contextAge p)\<rparr>"
| "apply_action p (Release t c) = releaseContext t c p"
| "apply_action p (Close c) = p\<lparr>closed_contexts := closed_contexts p @ [c]\<rparr>"
| "apply_action p Reset = p\<lparr>browser := False, contexts := [], contextAge := []\<rparr>"

definition pool_run :: "BrowserPool \<Rightarrow> pool_action list \<Rightarrow> BrowserPool" where
  "pool_run p acts = foldl apply_action p acts"










section \<open>Fetch orchestrator (scraper/merinfo.ts)\<close>

text \<open>
  What the external site shows during one run of \<^verbatim>\<open>doScrape\<close>, as far as the control
  flow reads it. \<open>company_link\<close> is the element \<^verbatim>\<open>a[href*="/foretag/"]\<close> of the card, if
  any, as its text and its \<^verbatim>\<open>href\<close> attribute.
\<close>

record search_card =
  hasWarning :: bool
  company_link :: "(string \<times> string option) option"

text \<open>
  \<open>goto_error\<close>: what \<^verbatim>\<open>page.goto(searchUrl)\<close> raises, if it does.
  \<open>results_rendered\<close>: the first \<^verbatim>\<open>waitForSelector\<close> finds a result card in time.
  \<open>matching_card\<close>: the card holding the key, if the second \<^verbatim>\<open>waitForSelector\<close> finds it.
  \<open>limit_text\<close>: the body text includes the search-limit message.
  \<open>company_page\<close>: what \<^verbatim>\<open>scrapeCompanyPage\<close> returns or raises (the extraction from
  the markup is not modelled). \<open>board_page\<close>: what \<^verbatim>\<open>scrapeBoardMembers\<close> returns; it
  catches its own errors. The last three fields are the readings of \<^verbatim>\<open>Date.now()\<close> in
  \<^verbatim>\<open>acquireContext\<close> and \<^verbatim>\<open>releaseContext\<close>.
\<close>

record site_view =
  goto_error :: "error option"
  results_rendered :: bool
  matching_card :: "search_card option"
  limit_text :: bool
  company_page :: "error + CompanyData"
  board_page :: "PersonDetails list"
  t_cleanup :: int
  t_create :: int
  t_release :: int

definition BASE_URL :: string where
  "BASE_URL = ''https://www.merinfo.se''"

definition starts_with :: "string \<Rightarrow> string \<Rightarrow> bool" where
  "starts_with pre s = (take (length pre) s = pre)"

text \<open>
  \<^verbatim>\<open>searchCompany\<close>: \<open>Inr None\<close> is \<^verbatim>\<open>return null\<close>. Inside the \<^verbatim>\<open>try\<close>, an error that is not
  a \<^verbatim>\<open>ScraperError\<close> (a timeout, or \<^verbatim>\<open>$eval\<close> finding no element) is caught and turned
  into \<^verbatim>\<open>null\<close>.
\<close>

definition searchCompany :: "site_view \<Rightarrow> string \<Rightarrow> error + string option" where
  "searchCompany v org_no =
     (case goto_error v of
        Some e \<Rightarrow> Inl e
      | None \<Rightarrow>
          if \<not> results_rendered v then Inr None
          else (case matching_card v of
                  None \<Rightarrow> Inr None
                | Some crd \<Rightarrow>
                    if hasWarning crd then
                      (case company_link crd of
                         None \<Rightarrow> Inr None
                       | Some (companyName, h) \<Rightarrow>
                           Inl (ScraperError (''Company '' @ companyName @ '' has warning remarks'') False))
                    else
                      (case company_link crd of
                         None \<Rightarrow> Inr None
                       | Some (companyName, None) \<Rightarrow> Inr None
                       | Some (companyName, Some href) \<Rightarrow>
                           if href = [] then Inr None
                           else Inr (Some (if starts_with ''http'' href then href
                                           else BASE_URL @ href)))))"

text \<open>The steps of the orchestrator, logged as they are entered, and its other effects.\<close>

datatype event =
    Searching
  | LimitCheck
  | DetailScrape
  | BoardScrape
  | RetryWarning nat
  | PoolRestart
  | BackoffWait nat

text \<open>
  The state the orchestrator acts on: how many runs of \<^verbatim>\<open>doScrape\<close> were started, the
  session pool, and the log.
\<close>

record world =
  attempts :: nat
  pool :: BrowserPool
  trace :: "event list"

definition new_world :: world where
  "new_world = \<lparr>attempts = 0, pool = new_pool, trace = []\<rparr>"

definition log_event :: "event \<Rightarrow> world \<Rightarrow> world" where
  "log_event e w = w\<lparr>trace := trace w @ [e]\<rparr>"

text \<open>
  \<^verbatim>\<open>doScrape\<close>. \<open>site n\<close> is what the site shows during the \<open>n\<close>-th run (from 0). On every
  error path the page is closed and the context is not released.
\<close>

definition doScrape ::
  "MCPConfig \<Rightarrow> (nat \<Rightarrow> site_view) \<Rightarrow> string \<Rightarrow> bool \<Rightarrow> world \<Rightarrow>
   (error + CompanyData \<times> PersonDetails list) \<times> world" where
  "doScrape cfg site org_no include_board w =
     (let v = site (attempts w);
          (ctx, pool1) = acquireContext (t_cleanup v) (t_create v) (pool w);
          w1 = log_event Searching (w\<lparr>attempts := Suc (attempts w), pool := pool1\<rparr>)
      in case searchCompany v org_no of
           Inl e \<Rightarrow> (Inl e, w1)
         | Inr None \<Rightarrow> (Inl (NoSuchCompanyError org_no), w1)
         | Inr (Some companyUrl) \<Rightarrow>
             (let w2 = log_event LimitCheck w1 in
              if limit_text v
              then (Inl (ScraperError ''Search limit reached on merinfo.se'' True), w2)
              else (let w3 = log_event DetailScrape w2 in
                    case company_page v of
                      Inl e \<Rightarrow> (Inl e, w3)
                    | Inr company \<Rightarrow>
                        (let (board_members, w4) =
                               (if include_board \<and> enable_person_details cfg
                                then (board_page v, log_event BoardScrape w3)
                                else ([], w3))
                         in (Inr (company, board_members),
                             w4\<lparr>pool := releaseContext (t_release v) ctx (pool w4)\<rparr>)))))"

text \<open>The \<^verbatim>\<open>onRetry\<close> callback \<^verbatim>\<open>scrapeCompany\<close> passes to \<^verbatim>\<open>withRetry\<close>.\<close>

definition scrape_onRetry :: "nat \<Rightarrow> error \<Rightarrow> world \<Rightarrow> world" where
  "scrape_onRetry attempt err w =
     (let w1 = log_event (RetryWarning attempt) w in
      if attempt \<ge> 2 then log_event PoolRestart (w1\<lparr>pool := restart (pool w1)\<rparr>) else w1)"

text \<open>
  \<^verbatim>\<open>scrapeCompany\<close>. The wait for a slot of the rate limiter, which precedes the
  retries, changes nothing the model keeps.
\<close>

definition scrapeCompany ::
  "MCPConfig \<Rightarrow> (nat \<Rightarrow> site_view) \<Rightarrow> string \<Rightarrow> bool \<Rightarrow> world \<Rightarrow>
   (error + CompanyData \<times> PersonDetails list) \<times> world" where
  "scrapeCompany cfg site org_no include_board w =
     (case normalizeOrgNumber org_no of
        Inl e \<Rightarrow> (Inl e, w)
      | Inr normalized_org \<Rightarrow>
          withRetry (doScrape cfg site normalized_org include_board) 3
            [''ScraperError'', ''TimeoutError''] scrape_onRetry
            (\<lambda>attempt. log_event (BackoffWait attempt)) w)"

text \<open>How often the log holds an event.\<close>

definition occurrences :: "event \<Rightarrow> world \<Rightarrow> nat" where
  "occurrences e w = length (filter (\<lambda>x. x = e) (trace w))"

section \<open>Example data\<close>

text \<open>Concrete inputs on which the theorems below are evaluated.\<close>

definition example_key :: string where
  "example_key = ''556631-3788''"

text \<open>A record as \<^verbatim>\<open>scrapeCompanyPage\<close> builds it, with a given name, snapshot and fetch time.\<close>

definition example_company :: "string \<Rightarrow> FinancialData option \<Rightarrow> string \<Rightarrow> CompanyData" where
  "example_company nm fin ts =
     \<lparr>org_number = example_key, name = nm, legal_form = Some ''Aktiebolag'',
      status = Some ''Aktivt'', registration_date = None,
      contact = \<lparr>phone = None, address = None, postal_code = None,
                  city = Some ''Stockholm'', municipality = None, county = None\<rparr>,
      tax_info = \<lparr>f_skatt = True, vat_registered = True, employer_registered = False\<rparr>,
      financials = fin,
      industry = \<lparr>sni_code = None, sni_description = None, categories = Some [],
                   activity_description = None\<rparr>,
      bankgiro_number = None, has_remarks = False, remarks = None,
      source_url = ''https://www.merinfo.se/foretag/example'',
      scraped_at = ts, updated_at = None\<rparr>"

text \<open>A snapshot whose period and result were found on the page but whose revenue was not.\<close>

definition example_snapshot :: FinancialData where
  "example_snapshot =
     \<lparr>period = Some ''2023'', revenue = None, profit_after_financial = Some 120000,
      net_profit = Some 95000, total_assets = Some 800000, currency = ''SEK''\<rparr>"

definition example_person :: PersonDetails where
  "example_person =
     \<lparr>p_id = None, p_org_number = example_key, p_name = ''Anna Andersson'', role = ''VD'',
      personal_number = None, age = Some 52, p_phone = None,
      p_address = \<lparr>street = None, apartment = None, a_postal_code = None, a_city = None\<rparr>,
      profile_url = None, p_scraped_at = Some ''2024-01-01T12:00:00.000Z''\<rparr>"

text \<open>
  SQLite's \<^verbatim>\<open>julianday\<close> on the two timestamps the examples use: noon UTC of
  1 January 2024 and of 1 February 2024.
\<close>

definition example_julianday :: "string \<Rightarrow> real option" where
  "example_julianday ts =
     (if ts = ''2024-01-01T12:00:00.000Z'' then Some 2460311
      else if ts = ''2024-02-01T12:00:00.000Z'' then Some 2460342
      else None)"

text \<open>The cache after a first fetch on 1 January 2024 that found one person.\<close>

definition example_cache :: database where
  "example_cache =
     snd (saveBoardMembers ''2024-01-01T12:00:01.000Z'' example_key [example_person]
            (snd (saveCompany True ''2024-01-01T12:00:01.000Z''
                    (example_company ''Old Name AB'' None ''2024-01-01T12:00:00.000Z'')
                    empty_database)))"

text \<open>A live fetch on 1 February 2024 that succeeds and finds no person.\<close>

definition example_refetch :: "string \<Rightarrow> bool \<Rightarrow> error + CompanyData \<times> PersonDetails list" where
  "example_refetch org_no include_board =
     Inr (example_company ''New Name AB'' None ''2024-02-01T12:00:00.000Z'', [])"


text \<open>
  Views of the site. \<open>ok_view\<close>: the search shows the matching card with its link, no
  warning and no limit message, and the detail page is read. \<open>timeout_view\<close>: the
  same, but the detail page times out. \<open>flagged_view\<close>: the card carries the warning.
  \<open>limit_view\<close>: the page shows the search-limit message and no result card.
\<close>

definition ok_view :: site_view where
  "ok_view =
     \<lparr>goto_error = None, results_rendered = True,
      matching_card =
        Some \<lparr>hasWarning = False, company_link = Some (''Example AB'', Some ''/foretag/example'')\<rparr>,
      limit_text = False,
      company_page = Inr (example_company ''New Name AB'' None ''2024-02-01T12:00:00.000Z''),
      board_page = [], t_cleanup = 0, t_create = 0, t_release = 1000\<rparr>"

definition timeout_view :: site_view where
  "timeout_view = ok_view\<lparr>company_page := Inl (TimeoutError ''Timeout 10000ms exceeded'')\<rparr>"

definition flagged_view :: site_view where
  "flagged_view =
     ok_view\<lparr>matching_card :=
        Some \<lparr>hasWarning = True, company_link = Some (''Example AB'', Some ''/foretag/example'')\<rparr>\<rparr>"

definition limit_view :: site_view where
  "limit_view = ok_view\<lparr>results_rendered := False, matching_card := None, limit_text := True\<rparr>"

text \<open>The site shows the first \<open>n\<close> runs one view and every later run another.\<close>

definition site_then :: "nat \<Rightarrow> site_view \<Rightarrow> site_view \<Rightarrow> nat \<Rightarrow> site_view" where
  "site_then n v v' k = (if k < n then v else v')"

text \<open>\<open>quota_view\<close>: the search finds the card, and the page shows the search-limit message.\<close>

definition quota_view :: site_view where
  "quota_view = ok_view\<lparr>limit_text := True\<rparr>"









section \<open>Properties of key normalization\<close>

lemma match_digits_iff:
  "match_digits n s = Some r \<longleftrightarrow> n \<le> length s \<and> list_all is_digit (take n s) \<and> r = drop n s"
proof (induction n s rule: match_digits.induct)
  case (1 s)
  show ?case by auto
next
  case (2 n)
  show ?case by simp
next
  case (3 n c s)
  then show ?case by auto
qed

lemma hyphen_not_digit: "\<not> is_digit CHR ''-''"
  by (simp add: is_digit_def)

lemma match_four_end:
  "match_digits 4 r = Some [] \<longleftrightarrow> length r = 4 \<and> list_all is_digit r"
  by (auto simp: match_digits_iff)

lemma all_split6: "list_all is_digit s \<longleftrightarrow> list_all is_digit (take 6 s) \<and> list_all is_digit (drop 6 s)"
  by (metis append_take_drop_id list_all_append)

lemma drop7: "drop 7 s = tl (drop 6 s)"
  by (simp add: tl_drop drop_Suc eval_nat_numeral)

lemma org_regex_match_iff:
  "org_regex_match s \<longleftrightarrow> (length s = 10 \<and> list_all is_digit s) \<or> is_canonical s"
proof (cases "6 \<le> length s \<and> list_all is_digit (take 6 s)")
  case False
  then have "match_digits 6 s = None"
    using match_digits_iff [of 6 s] by (cases "match_digits 6 s") auto
  moreover have "\<not> (length s = 10 \<and> list_all is_digit s)"
    using False all_split6 [of s] by auto
  moreover have "\<not> is_canonical s"
    using False by (auto simp: is_canonical_def)
  ultimately show ?thesis
    by (simp add: org_regex_match_def)
next
  case True
  then have m: "match_digits 6 s = Some (drop 6 s)"
    by (simp add: match_digits_iff)
  show ?thesis
  proof (cases "drop 6 s")
    case Nil
    then show ?thesis
      using True m by (auto simp: org_regex_match_def match_opt_hyphen_def is_canonical_def match_four_end)
  next
    case (Cons c t)
    then have len: "length s = 7 + length t"
      by (metis add.commute add_Suc_right length_Cons length_drop le_add_diff_inverse True
          numeral_Bit1 numeral_Bit0 add.assoc One_nat_def Suc_eq_plus1 plus_1_eq_Suc)
    have nth6: "s ! 6 = c"
      using Cons by (metis nth_via_drop)
    have t: "drop 7 s = t"
      using Cons by (simp add: drop7)
    have canon: "is_canonical s \<longleftrightarrow> c = CHR ''-'' \<and> length t = 4 \<and> list_all is_digit t"
      using True len nth6 t by (auto simp: is_canonical_def)
    have ten: "length s = 10 \<and> list_all is_digit s \<longleftrightarrow> length t = 3 \<and> is_digit c \<and> list_all is_digit t"
      using True len Cons all_split6 [of s] by auto
    have "org_regex_match s \<longleftrightarrow>
        (c = CHR ''-'' \<and> length t = 4 \<and> list_all is_digit t) \<or> (length t = 3 \<and> is_digit c \<and> list_all is_digit t)"
      using m Cons hyphen_not_digit
      by (auto simp: org_regex_match_def match_opt_hyphen_def match_four_end)
    then show ?thesis
      using canon ten by blast
  qed
qed

lemma strip_all_digits: "list_all is_digit s \<Longrightarrow> strip_non_digits s = s"
  by (simp add: strip_non_digits_def list_all_iff)

lemma canonical_decompose:
  assumes "is_canonical s"
  shows "s = take 6 s @ CHR ''-'' # drop 7 s"
proof -
  have "6 < length s" and "s ! 6 = CHR ''-''"
    using assms by (simp_all add: is_canonical_def)
  then show ?thesis
    using id_take_nth_drop [of 6 s] by simp
qed

lemma strip_canonical:
  assumes "is_canonical s"
  shows "strip_non_digits s = take 6 s @ drop 7 s"
proof -
  have d: "list_all is_digit (take 6 s)" "list_all is_digit (drop 7 s)"
    using assms by (simp_all add: is_canonical_def)
  have "strip_non_digits s = strip_non_digits (take 6 s @ CHR ''-'' # drop 7 s)"
    using canonical_decompose [OF assms] by simp
  also have "\<dots> = strip_non_digits (take 6 s) @ strip_non_digits (drop 7 s)"
    by (simp add: strip_non_digits_def hyphen_not_digit)
  finally show ?thesis
    using d by (simp add: strip_all_digits)
qed

lemma format_canonical:
  assumes "is_canonical s"
  shows "format_org (strip_non_digits s) = s"
proof -
  have "length (take 6 s) = 6"
    using assms by (simp add: is_canonical_def)
  then have "format_org (take 6 s @ drop 7 s) = take 6 s @ CHR ''-'' # drop 7 s"
    by (simp add: format_org_def)
  then show ?thesis
    using strip_canonical [OF assms] canonical_decompose [OF assms] by simp
qed

lemma format_ten_digits:
  assumes "length d = 10" and "list_all is_digit d"
  shows "is_canonical (format_org d)"
proof -
  have "list_all is_digit (take 6 d)" "list_all is_digit (drop 6 d)"
    using assms(2) by (metis append_take_drop_id list_all_append)+
  then show ?thesis
    using assms(1) by (simp add: is_canonical_def format_org_def nth_append)
qed

lemma strip_digits_only: "list_all is_digit (strip_non_digits s)"
  by (simp add: strip_non_digits_def list_all_iff)

lemma strip_idem: "strip_non_digits (strip_non_digits s) = strip_non_digits s"
  by (simp add: strip_non_digits_def)

lemma OrgNumberSchema_accepts_iff:
  "(\<exists>c. OrgNumberSchema s = Inr c) \<longleftrightarrow> (length s = 10 \<and> list_all is_digit s) \<or> is_canonical s"
  by (simp add: OrgNumberSchema_def org_regex_match_iff)

lemma OrgNumberSchema_result:
  assumes "OrgNumberSchema s = Inr c"
  shows "is_canonical c \<and> c = format_org (strip_non_digits s) \<and> OrgNumberSchema c = Inr c"
proof -
  have c: "c = format_org (strip_non_digits s)" and m: "org_regex_match s"
    using assms by (auto simp: OrgNumberSchema_def split: if_splits)
  have canon: "is_canonical c"
  proof (cases "is_canonical s")
    case True
    then show ?thesis using c format_canonical by simp
  next
    case False
    then have "length s = 10 \<and> list_all is_digit s"
      using m org_regex_match_iff by blast
    then show ?thesis
      using c format_ten_digits strip_all_digits by simp
  qed
  then have "OrgNumberSchema c = Inr c"
    by (simp add: OrgNumberSchema_def org_regex_match_iff format_canonical)
  then show ?thesis using c canon by simp
qed

lemma normalizeOrgNumber_reducible:
  assumes "length (strip_non_digits s) = 10"
  shows "normalizeOrgNumber s = Inr (format_org (strip_non_digits s))"
    and "is_canonical (format_org (strip_non_digits s))"
    and "normalizeOrgNumber (format_org (strip_non_digits s)) = Inr (format_org (strip_non_digits s))"
proof -
  show "normalizeOrgNumber s = Inr (format_org (strip_non_digits s))"
    using assms by (simp add: normalizeOrgNumber_def)
  show canon: "is_canonical (format_org (strip_non_digits s))"
    using assms format_ten_digits strip_digits_only by blast
  have "strip_non_digits (format_org (strip_non_digits s)) = strip_non_digits s"
    using strip_canonical [OF canon] assms
    by (simp add: format_org_def)
  then show "normalizeOrgNumber (format_org (strip_non_digits s)) = Inr (format_org (strip_non_digits s))"
    using assms by (simp add: normalizeOrgNumber_def format_canonical [OF canon])
qed

lemma not_reducible_rejected:
  assumes "length (strip_non_digits s) \<noteq> 10"
  shows "(\<exists>e. normalizeOrgNumber s = Inl e) \<and> (\<exists>e. OrgNumberSchema s = Inl e)"
proof -
  have "\<not> (length s = 10 \<and> list_all is_digit s)"
    using assms strip_all_digits by force
  moreover have "\<not> is_canonical s"
  proof
    assume c: "is_canonical s"
    then have "length (strip_non_digits s) = 10"
      using strip_canonical [OF c] by (simp add: is_canonical_def)
    then show False using assms by simp
  qed
  ultimately have "\<not> org_regex_match s"
    by (simp add: org_regex_match_iff)
  then show ?thesis
    using assms by (simp add: normalizeOrgNumber_def OrgNumberSchema_def)
qed

lemma schema_example_plain: "OrgNumberSchema ''5566313788'' = Inr ''556631-3788''"
  by (simp add: OrgNumberSchema_def org_regex_match_def match_opt_hyphen_def is_digit_def
      strip_non_digits_def format_org_def eval_nat_numeral)

lemma schema_example_canonical: "OrgNumberSchema ''556631-3788'' = Inr ''556631-3788''"
  by (simp add: OrgNumberSchema_def org_regex_match_def match_opt_hyphen_def is_digit_def
      strip_non_digits_def format_org_def eval_nat_numeral)

lemma schema_example_short: "OrgNumberSchema ''12345'' = Inl (ZodError ''Invalid Swedish organization number format (expected: XXXXXX-XXXX)'')"
  by (simp add: OrgNumberSchema_def org_regex_match_def match_opt_hyphen_def is_digit_def
      strip_non_digits_def format_org_def eval_nat_numeral)

lemma schema_example_spaced: "OrgNumberSchema ''556631 3788'' = Inl (ZodError ''Invalid Swedish organization number format (expected: XXXXXX-XXXX)'')
   \<and> strip_non_digits ''556631 3788'' = ''5566313788''"
  by (simp add: OrgNumberSchema_def org_regex_match_def match_opt_hyphen_def is_digit_def
      strip_non_digits_def format_org_def eval_nat_numeral)

lemma normalize_example_spaced: "normalizeOrgNumber ''556631 3788'' = Inr ''556631-3788''"
  by (simp add: normalizeOrgNumber_def is_digit_def strip_non_digits_def format_org_def)

lemma normalize_example_short: "normalizeOrgNumber ''12345'' = Inl (Error ''Invalid organization number: 12345'')"
  by (simp add: normalizeOrgNumber_def is_digit_def strip_non_digits_def format_org_def)

text \<open>
  Claim C9, as the code has it. The validator \<^verbatim>\<open>OrgNumberSchema\<close>, through which every
  tool reads its key, accepts exactly the inputs made of six digits, an optional hyphen
  and four digits; it maps each of them to the canonical form, on which it is the
  identity. Every other input is a validation failure, also one that holds ten digits
  among other characters. The scraper's own \<^verbatim>\<open>normalizeOrgNumber\<close> maps every input
  with exactly ten digit characters to the canonical form of those digits and is
  idempotent; an input that does not reduce to ten digits is refused by both functions.
  The three examples of the specification hold for the validator.
\<close>

theorem key_normalization:
  "((\<exists>c. OrgNumberSchema s = Inr c) \<longleftrightarrow>
      (length s = 10 \<and> list_all is_digit s) \<or> is_canonical s)
   \<and> (OrgNumberSchema s = Inr c \<longrightarrow>
        is_canonical c \<and> c = format_org (strip_non_digits s) \<and> OrgNumberSchema c = Inr c)
   \<and> (length (strip_non_digits s) = 10 \<longrightarrow>
        normalizeOrgNumber s = Inr (format_org (strip_non_digits s))
        \<and> is_canonical (format_org (strip_non_digits s))
        \<and> normalizeOrgNumber (format_org (strip_non_digits s)) =
            Inr (format_org (strip_non_digits s)))
   \<and> (length (strip_non_digits s) \<noteq> 10 \<longrightarrow>
        (\<exists>e. normalizeOrgNumber s = Inl e) \<and> (\<exists>e. OrgNumberSchema s = Inl e))
   \<and> OrgNumberSchema ''5566313788'' = Inr ''556631-3788''
   \<and> OrgNumberSchema ''556631-3788'' = Inr ''556631-3788''
   \<and> (\<exists>e. OrgNumberSchema ''12345'' = Inl e)"
proof -
  have a: "(\<exists>c. OrgNumberSchema s = Inr c) \<longleftrightarrow>
      (length s = 10 \<and> list_all is_digit s) \<or> is_canonical s"
    by (rule OrgNumberSchema_accepts_iff)
  have b: "OrgNumberSchema s = Inr c \<longrightarrow>
        is_canonical c \<and> c = format_org (strip_non_digits s) \<and> OrgNumberSchema c = Inr c"
    using OrgNumberSchema_result by blast
  have c: "length (strip_non_digits s) = 10 \<longrightarrow>
        normalizeOrgNumber s = Inr (format_org (strip_non_digits s))
        \<and> is_canonical (format_org (strip_non_digits s))
        \<and> normalizeOrgNumber (format_org (strip_non_digits s)) =
            Inr (format_org (strip_non_digits s))"
    using normalizeOrgNumber_reducible by blast
  have d: "length (strip_non_digits s) \<noteq> 10 \<longrightarrow>
        (\<exists>e. normalizeOrgNumber s = Inl e) \<and> (\<exists>e. OrgNumberSchema s = Inl e)"
    using not_reducible_rejected by blast
  have e: "\<exists>e. OrgNumberSchema ''12345'' = Inl e"
    using schema_example_short by blast
  show ?thesis
    using a b c d e schema_example_plain schema_example_canonical by blast
qed

theorem key_normalization_witness:
  "is_canonical ''556631-3788''
   \<and> OrgNumberSchema ''556631-3788'' = Inr ''556631-3788''
   \<and> normalizeOrgNumber ''5566313788'' = Inr ''556631-3788''"
proof -
  have s: "strip_non_digits ''5566313788'' = ''5566313788''"
    by (simp add: strip_non_digits_def is_digit_def)
  have f: "format_org ''5566313788'' = ''556631-3788''"
    by (simp add: format_org_def)
  show ?thesis
    using key_normalization [of "''5566313788''" "''556631-3788''"] schema_example_plain s f
    by simp
qed

text \<open>
  Claim C9 as stated fails on the validator: an input that reduces to exactly ten
  digits once its space is removed is not mapped to the canonical form.
\<close>

theorem key_normalization_counterexample:
  "length (strip_non_digits ''556631 3788'') = 10
   \<and> OrgNumberSchema ''556631 3788'' =
       Inl (ZodError ''Invalid Swedish organization number format (expected: XXXXXX-XXXX)'')"
  using schema_example_spaced by simp

section \<open>Properties of the backoff schedule\<close>

lemma rounding_id: "rounding (\<lambda>x. x)"
  by (simp add: rounding_def)

lemma rounding_exact:
  assumes "rounding fl" and "\<bar>n\<bar> \<le> 2 ^ 53"
  shows "fl (real_of_int n) = real_of_int n"
  using assms by (simp add: rounding_def)

lemma rounding_lower:
  assumes "rounding fl" and "real_of_int lo \<le> x" and "\<bar>lo\<bar> \<le> 2 ^ 53"
  shows "real_of_int lo \<le> fl x"
proof -
  have "fl (real_of_int lo) \<le> fl x"
    using assms(1,2) by (simp add: rounding_def)
  then show ?thesis
    using rounding_exact [OF assms(1,3)] by simp
qed

lemma rounding_upper:
  assumes "rounding fl" and "x \<le> real_of_int hi" and "\<bar>hi\<bar> \<le> 2 ^ 53"
  shows "fl x \<le> real_of_int hi"
proof -
  have "fl x \<le> fl (real_of_int hi)"
    using assms(1,2) by (simp add: rounding_def)
  then show ?thesis
    using rounding_exact [OF assms(1,3)] by simp
qed

lemma jitter_lower:
  assumes fl: "rounding fl" and r: "0 \<le> r"
    and size: "0 \<le> A" "A \<le> 2 ^ 40" "0 \<le> B" "B \<le> 2 ^ 40"
  shows "real_of_int (B - A) \<le>
     fl (real_of_int B + fl (fl (fl (r * real_of_int A) * 2) - real_of_int A))"
proof -
  have big: "(2::int) ^ 40 \<le> 2 ^ 53"
    by simp
  have "real_of_int 0 \<le> r * real_of_int A"
    using r size by simp
  then have a: "0 \<le> fl (r * real_of_int A)"
    using rounding_lower [OF fl, of 0] by simp
  then have "real_of_int 0 \<le> fl (r * real_of_int A) * 2"
    by simp
  then have b: "0 \<le> fl (fl (r * real_of_int A) * 2)"
    using rounding_lower [OF fl, of 0] by simp
  then have "real_of_int (- A) \<le> fl (fl (r * real_of_int A) * 2) - real_of_int A"
    by simp
  then have j: "real_of_int (- A) \<le> fl (fl (fl (r * real_of_int A) * 2) - real_of_int A)"
    using size big by (intro rounding_lower [OF fl]) simp_all
  then have "real_of_int (B - A) \<le>
      real_of_int B + fl (fl (fl (r * real_of_int A) * 2) - real_of_int A)"
    by simp
  then show ?thesis
    using size big by (intro rounding_lower [OF fl]) simp_all
qed

lemma jitter_upper:
  assumes fl: "rounding fl" and r: "r * real_of_int A \<le> real_of_int M"
    and size: "0 \<le> A" "A \<le> 2 ^ 40" "0 \<le> B" "B \<le> 2 ^ 40" "0 \<le> M" "M \<le> 2 ^ 40"
  shows "fl (real_of_int B + fl (fl (fl (r * real_of_int A) * 2) - real_of_int A))
     \<le> real_of_int (B + (2 * M - A))"
proof -
  have big: "(2::int) ^ 40 * 4 \<le> 2 ^ 53"
    by simp
  have a: "fl (r * real_of_int A) \<le> real_of_int M"
    using size big by (intro rounding_upper [OF fl r]) simp
  then have "fl (r * real_of_int A) * 2 \<le> real_of_int (2 * M)"
    by simp
  then have b: "fl (fl (r * real_of_int A) * 2) \<le> real_of_int (2 * M)"
    using size big by (intro rounding_upper [OF fl]) simp_all
  then have "fl (fl (r * real_of_int A) * 2) - real_of_int A \<le> real_of_int (2 * M - A)"
    by simp
  then have j: "fl (fl (fl (r * real_of_int A) * 2) - real_of_int A) \<le> real_of_int (2 * M - A)"
    using size big by (intro rounding_upper [OF fl]) simp_all
  then have "real_of_int B + fl (fl (fl (r * real_of_int A) * 2) - real_of_int A)
      \<le> real_of_int (B + (2 * M - A))"
    by simp
  then show ?thesis
    using size big by (intro rounding_upper [OF fl]) simp_all
qed

lemma getDelay_first:
  assumes "rounding fl"
  shows "getDelay fl default_backoff r 1 =
     max 0 (fl (real_of_int 2000 + fl (fl (fl (r * real_of_int 500) * 2) - real_of_int 500)))"
proof -
  have "fl 1 = 1" "fl 2000 = 2000" "fl 500 = 500"
    using rounding_exact [OF assms, of 1] rounding_exact [OF assms, of 2000]
      rounding_exact [OF assms, of 500] by simp_all
  then show ?thesis
    by (simp add: getDelay_def default_backoff_def Let_def)
qed

lemma getDelay_fifth:
  assumes "rounding fl"
  shows "getDelay fl default_backoff r 5 =
     max 0 (fl (real_of_int 30000 + fl (fl (fl (r * real_of_int 7500) * 2) - real_of_int 7500)))"
proof -
  have "fl 16 = 16" "fl 32000 = 32000" "fl 7500 = 7500"
    using rounding_exact [OF assms, of 16] rounding_exact [OF assms, of 32000]
      rounding_exact [OF assms, of 7500] by simp_all
  then show ?thesis
    by (simp add: getDelay_def default_backoff_def Let_def)
qed

lemma getDelay_fifth_plain:
  assumes "rounding fl"
  shows "getDelay fl (default_backoff\<lparr>jitter := False\<rparr>) r 5 = 30000"
proof -
  have "fl 16 = 16" "fl 32000 = 32000"
    using rounding_exact [OF assms, of 16] rounding_exact [OF assms, of 32000] by simp_all
  then show ?thesis
    by (simp add: getDelay_def default_backoff_def Let_def)
qed

lemma getDelay_three_quarters:
  assumes "rounding fl"
  shows "getDelay fl default_backoff (3 / 4) 5 = 33750"
proof -
  have "fl 5625 = 5625" "fl 11250 = 11250" "fl 3750 = 3750" "fl 33750 = 33750"
    using rounding_exact [OF assms, of 5625] rounding_exact [OF assms, of 11250]
      rounding_exact [OF assms, of 3750] rounding_exact [OF assms, of 33750] by simp_all
  then show ?thesis
    by (simp add: getDelay_fifth [OF assms])
qed

text \<open>
  Claim C8, as the code has it. With the default schedule (2000 ms, factor 2, ceiling
  30000 ms, jitter on), any rounding of the arithmetic and any draw \<open>r\<close> of
  \<^verbatim>\<open>Math.random()\<close> in \<open>[0, 1)\<close>, the delay of attempt 1 lies in \<open>[1500, 2500]\<close>. For
  attempt 5 the exponential delay is clamped to the ceiling first and the jitter of
  up to a quarter is added afterwards, so the delay lies in \<open>[22500, 37500]\<close>: it
  is within the ceiling for the draws up to one half, and it is 33750 ms for the draw
  0.75. Without jitter the delay of attempt 5 is the ceiling itself.
\<close>

theorem backoff_bounds:
  assumes "rounding fl" and "0 \<le> r" and "r < 1"
  shows "1500 \<le> getDelay fl default_backoff r 1 \<and> getDelay fl default_backoff r 1 \<le> 2500
     \<and> 22500 \<le> getDelay fl default_backoff r 5 \<and> getDelay fl default_backoff r 5 \<le> 37500
     \<and> (r \<le> 1 / 2 \<longrightarrow> getDelay fl default_backoff r 5 \<le> 30000)
     \<and> getDelay fl default_backoff (3 / 4) 5 = 33750
     \<and> getDelay fl (default_backoff\<lparr>jitter := False\<rparr>) r 5 = 30000"
proof -
  let ?one = "fl (real_of_int 2000 + fl (fl (fl (r * real_of_int 500) * 2) - real_of_int 500))"
  let ?five = "fl (real_of_int 30000 + fl (fl (fl (r * real_of_int 7500) * 2) - real_of_int 7500))"
  have lo1: "real_of_int (2000 - 500) \<le> ?one"
    by (rule jitter_lower [OF assms(1,2)]) simp_all
  have hi1: "?one \<le> real_of_int (2000 + (2 * 500 - 500))"
    using assms(2,3) by (intro jitter_upper [OF assms(1)]) simp_all
  have lo5: "real_of_int (30000 - 7500) \<le> ?five"
    by (rule jitter_lower [OF assms(1,2)]) simp_all
  have hi5: "?five \<le> real_of_int (30000 + (2 * 7500 - 7500))"
    using assms(2,3) by (intro jitter_upper [OF assms(1)]) simp_all
  have half: "r \<le> 1 / 2 \<longrightarrow> ?five \<le> real_of_int (30000 + (2 * 3750 - 7500))"
  proof
    assume "r \<le> 1 / 2"
    then show "?five \<le> real_of_int (30000 + (2 * 3750 - 7500))"
      by (intro jitter_upper [OF assms(1)]) simp_all
  qed
  have one: "getDelay fl default_backoff r 1 = ?one"
    using lo1 by (simp add: getDelay_first [OF assms(1)])
  have five: "getDelay fl default_backoff r 5 = ?five"
    using lo5 by (simp add: getDelay_fifth [OF assms(1)])
  show ?thesis
    unfolding one five
    using lo1 hi1 lo5 hi5 half getDelay_three_quarters [OF assms(1)]
      getDelay_fifth_plain [OF assms(1)]
    by simp
qed

text \<open>An instance: exact arithmetic and the draw 0.25.\<close>

theorem backoff_bounds_witness:
  "rounding (\<lambda>x. x)
   \<and> getDelay (\<lambda>x. x) default_backoff (1 / 4) 1 = 1750
   \<and> 1500 \<le> getDelay (\<lambda>x. x) default_backoff (1 / 4) 1
   \<and> getDelay (\<lambda>x. x) default_backoff (1 / 4) 1 \<le> 2500
   \<and> getDelay (\<lambda>x. x) default_backoff (1 / 4) 5 = 26250
   \<and> getDelay (\<lambda>x. x) default_backoff (1 / 4) 5 \<le> 30000"
proof -
  have a: "getDelay (\<lambda>x. x) default_backoff (1 / 4) 1 = 1750"
    by (simp add: getDelay_first [OF rounding_id])
  have b: "getDelay (\<lambda>x. x) default_backoff (1 / 4) 5 = 26250"
    by (simp add: getDelay_fifth [OF rounding_id])
  have r: "(0::real) \<le> 1 / 4" "(1 / 4 :: real) < 1"
    by simp_all
  show ?thesis
    using backoff_bounds [OF rounding_id r] rounding_id a b by simp
qed

text \<open>
  Claim C8 as stated fails: for the draw 0.75 the delay of attempt 5 is 33750 ms,
  above the ceiling of 30000 ms. Every intermediate result at this draw is an integer,
  so the value is the same under every rounding, as the theorem above states.
\<close>

theorem backoff_ceiling_counterexample:
  "(0::real) \<le> 3 / 4 \<and> (3 / 4 :: real) < 1
   \<and> getDelay (\<lambda>x. x) default_backoff (3 / 4) 5 = 33750
   \<and> \<not> getDelay (\<lambda>x. x) default_backoff (3 / 4) 5 \<le> 30000"
  by (simp add: getDelay_three_quarters [OF rounding_id])

section \<open>Properties of the cache store and the freshness decision\<close>

lemma bound_row_key: "col_org_number (bound_row now_iso c) = org_number c"
  by (simp add: bound_row_def)

lemma save_status:
  "(fst (saveCompany trigger_ok now_iso c db) = None) =
     (companies db (org_number c) = None \<or> trigger_ok)"
  by (simp add: saveCompany_def Let_def bound_row_key split: option.splits)

lemma save_failed:
  "fst (saveCompany trigger_ok now_iso c db) \<noteq> None \<Longrightarrow>
     snd (saveCompany trigger_ok now_iso c db) = db"
  by (simp add: saveCompany_def Let_def bound_row_key split: option.splits if_splits)

lemma saved_row:
  assumes "fst (saveCompany trigger_ok now_iso c db) = None"
  shows "companies (snd (saveCompany trigger_ok now_iso c db)) (org_number c) =
     Some (case companies db (org_number c) of
             None \<Rightarrow> bound_row now_iso c
           | Some stored \<Rightarrow> on_conflict_update (bound_row now_iso c) stored)"
  using assms
  by (simp add: saveCompany_def Let_def bound_row_key split: option.splits if_splits)

lemma saved_financial_columns:
  assumes "fst (saveCompany trigger_ok now_iso c db) = None"
    and "companies (snd (saveCompany trigger_ok now_iso c db)) (org_number c) = Some row"
  shows "col_revenue row = or_null_num (fin_field revenue (financials c))"
    and "col_financial_period row = or_null_str (fin_field period (financials c))"
    and "col_profit_after_financial row = or_null_num (fin_field profit_after_financial (financials c))"
    and "col_net_profit row = or_null_num (fin_field net_profit (financials c))"
    and "col_total_assets row = or_null_num (fin_field total_assets (financials c))"
  using assms(2) unfolding saved_row [OF assms(1)]
  by (auto simp: on_conflict_update_def bound_row_def split: option.splits)

lemma or_null_num_idem: "or_null_num (or_null_num v) = or_null_num v"
  by (simp add: or_null_num_def split: option.splits)

lemma revenue_truthy:
  "(or_null_num (fin_field revenue fo) \<noteq> None) = (\<exists>fd v. fo = Some fd \<and> revenue fd = Some v \<and> v \<noteq> 0)"
  by (auto simp: or_null_num_def fin_field_def split: option.splits)

text \<open>
  Claim C10. Whenever \<^verbatim>\<open>saveCompany\<close> completes, the record is saved: a get on its key
  returns a record, and that record has a financial snapshot if and only if the saved
  record had one whose revenue is present and not zero. The period and the three
  other metrics are stored in their columns whatever the revenue. The save completes
  exactly when the key is new or the trigger of the full-text index goes through;
  when it raises instead, nothing is saved and the database is as before.
\<close>

theorem financials_iff_revenue:
  "(fst (saveCompany trigger_ok now_iso c db) = None \<longrightarrow>
      (\<exists>row r. companies (snd (saveCompany trigger_ok now_iso c db)) (org_number c) = Some row
         \<and> getCompany (snd (saveCompany trigger_ok now_iso c db)) (org_number c) = Some r
         \<and> ((financials r \<noteq> None) =
              (\<exists>fd v. financials c = Some fd \<and> revenue fd = Some v \<and> v \<noteq> 0))
         \<and> col_financial_period row = or_null_str (fin_field period (financials c))
         \<and> col_profit_after_financial row =
             or_null_num (fin_field profit_after_financial (financials c))
         \<and> col_net_profit row = or_null_num (fin_field net_profit (financials c))
         \<and> col_total_assets row = or_null_num (fin_field total_assets (financials c))))
   \<and> ((fst (saveCompany trigger_ok now_iso c db) = None) =
        (companies db (org_number c) = None \<or> trigger_ok))
   \<and> (fst (saveCompany trigger_ok now_iso c db) \<noteq> None \<longrightarrow>
        snd (saveCompany trigger_ok now_iso c db) = db)"
proof -
  let ?db = "snd (saveCompany trigger_ok now_iso c db)"
  have "\<exists>row r. companies ?db (org_number c) = Some row
         \<and> getCompany ?db (org_number c) = Some r
         \<and> ((financials r \<noteq> None) =
              (\<exists>fd v. financials c = Some fd \<and> revenue fd = Some v \<and> v \<noteq> 0))
         \<and> col_financial_period row = or_null_str (fin_field period (financials c))
         \<and> col_profit_after_financial row =
             or_null_num (fin_field profit_after_financial (financials c))
         \<and> col_net_profit row = or_null_num (fin_field net_profit (financials c))
         \<and> col_total_assets row = or_null_num (fin_field total_assets (financials c))"
    if ok: "fst (saveCompany trigger_ok now_iso c db) = None"
  proof -
    obtain row where row: "companies ?db (org_number c) = Some row"
      using saved_row [OF ok] by blast
    have get: "getCompany ?db (org_number c) = Some (rowToCompany row)"
      using row by (simp add: getCompany_def)
    have "(financials (rowToCompany row) \<noteq> None) = (or_null_num (col_revenue row) \<noteq> None)"
      by (simp add: rowToCompany_def)
    then have "(financials (rowToCompany row) \<noteq> None) =
        (\<exists>fd v. financials c = Some fd \<and> revenue fd = Some v \<and> v \<noteq> 0)"
      using saved_financial_columns(1) [OF ok row] revenue_truthy [of "financials c"]
      by (simp add: or_null_num_idem)
    then show ?thesis
      using row get saved_financial_columns(2-5) [OF ok row] by blast
  qed
  then show ?thesis
    using save_status [of trigger_ok now_iso c db] save_failed [of trigger_ok now_iso c db]
    by blast
qed

lemma example_company_key: "org_number (example_company nm fin ts) = example_key"
  by (simp add: example_company_def)

lemma example_company_financials: "financials (example_company nm fin ts) = fin"
  by (simp add: example_company_def)

text \<open>
  An instance: saved under a new key, a snapshot with period 2023 and three metrics
  but no revenue is stored column by column, and the record read back has no snapshot.
\<close>

theorem financials_iff_revenue_witness:
  "fst (saveCompany False ''2024-01-01T12:00:01.000Z''
          (example_company ''Old Name AB'' (Some example_snapshot) ''2024-01-01T12:00:00.000Z'')
          empty_database) = None
   \<and> (\<exists>row r. companies (snd (saveCompany False ''2024-01-01T12:00:01.000Z''
                (example_company ''Old Name AB'' (Some example_snapshot) ''2024-01-01T12:00:00.000Z'')
                empty_database)) example_key = Some row
     \<and> getCompany (snd (saveCompany False ''2024-01-01T12:00:01.000Z''
                (example_company ''Old Name AB'' (Some example_snapshot) ''2024-01-01T12:00:00.000Z'')
                empty_database)) example_key = Some r
     \<and> financials r = None
     \<and> col_financial_period row = Some ''2023''
     \<and> col_profit_after_financial row = Some 120000
     \<and> col_net_profit row = Some 95000
     \<and> col_total_assets row = Some 800000)"
proof -
  have ok: "fst (saveCompany False ''2024-01-01T12:00:01.000Z''
          (example_company ''Old Name AB'' (Some example_snapshot) ''2024-01-01T12:00:00.000Z'')
          empty_database) = None"
    by (simp add: save_status example_company_key empty_database_def)
  show ?thesis
    using financials_iff_revenue [of False "''2024-01-01T12:00:01.000Z''"
      "example_company ''Old Name AB'' (Some example_snapshot) ''2024-01-01T12:00:00.000Z''"
      empty_database] ok
    by (simp add: example_company_key example_company_financials example_snapshot_def
      fin_field_def or_null_num_def or_null_str_def)
qed

lemma cache_decision_unfold:
  "cache_decision julianday now cfg db key force =
     (case companies db key of
        None \<Rightarrow> Fetch
      | Some row \<Rightarrow>
          if force \<or> (case age_days julianday now row of
                           None \<Rightarrow> False | Some a \<Rightarrow> a > cache_stale_days cfg)
          then Fetch else Serve (rowToCompany row))"
  by (simp add: cache_decision_def getCompany_def isCacheStale_def Let_def split: option.splits)

text \<open>
  Claim C1. The cache check of \<^verbatim>\<open>searchCompanyByOrgNumber\<close> decides \<open>Fetch\<close> when no row
  is stored under the key. For a stored row whose fetch timestamp \<open>t\<close> SQLite can read,
  the cached record is the row's record, the decision is \<open>Fetch\<close> exactly when
  \<^verbatim>\<open>force_refresh\<close> is set or the age \<open>now - t\<close> in days strictly exceeds the configured
  threshold, and it is \<open>Serve\<close> of the cached record otherwise. With the default
  threshold of 7 days: age 6 serves, age 8 fetches, and a forced refresh at age 0
  fetches.
\<close>

theorem freshness_decision:
  "(companies db key = None \<longrightarrow> cache_decision julianday now cfg db key force = Fetch)
   \<and> (companies db key = Some row \<and> julianday (col_scraped_at row) = Some t \<longrightarrow>
        getCompany db key = Some (rowToCompany row)
        \<and> (cache_decision julianday now cfg db key force = Fetch
             \<longleftrightarrow> force \<or> now - t > cache_stale_days cfg)
        \<and> (cache_decision julianday now cfg db key force = Serve (rowToCompany row)
             \<longleftrightarrow> \<not> (force \<or> now - t > cache_stale_days cfg))
        \<and> cache_decision julianday (t + 6) DEFAULT_CONFIG db key False = Serve (rowToCompany row)
        \<and> cache_decision julianday (t + 8) DEFAULT_CONFIG db key False = Fetch
        \<and> cache_decision julianday t DEFAULT_CONFIG db key True = Fetch)
   \<and> cache_stale_days DEFAULT_CONFIG = 7"
  by (simp add: cache_decision_unfold age_days_def getCompany_def DEFAULT_CONFIG_def)

lemma insert_people_companies:
  "companies (foldl (insert_person now_iso) db ms) = companies db"
  by (induction ms arbitrary: db) (simp_all add: insert_person_def)

lemma saveBoardMembers_companies:
  "companies (snd (saveBoardMembers now_iso k ms db)) = companies db"
  by (simp add: saveBoardMembers_def Let_def insert_people_companies)

lemma saveCompany_people: "people (snd (saveCompany trigger_ok now_iso c db)) = people db"
  by (simp add: saveCompany_def Let_def split: option.splits)

lemma first_save_ok:
  "fst (saveCompany trigger_ok now_iso (example_company nm fin ts) empty_database) = None"
  by (simp add: save_status example_company_key empty_database_def)

lemma saveCompany_done:
  "saveCompany True now_iso c db =
     (None, db\<lparr>companies := (companies db)(org_number c \<mapsto>
        (case companies db (org_number c) of
           None \<Rightarrow> bound_row now_iso c
         | Some stored \<Rightarrow> on_conflict_update (bound_row now_iso c) stored))\<rparr>)"
  by (simp add: saveCompany_def Let_def bound_row_key split: option.splits)

lemma refetch_ok:
  "fst (saveCompany True now_iso c db) = None"
  by (simp add: save_status)

lemma example_cache_row:
  "companies example_cache example_key =
     Some (bound_row ''2024-01-01T12:00:01.000Z''
             (example_company ''Old Name AB'' None ''2024-01-01T12:00:00.000Z''))"
  unfolding example_cache_def saveBoardMembers_companies
  using saved_row [OF first_save_ok, of True "''2024-01-01T12:00:01.000Z''" "''Old Name AB''" None
      "''2024-01-01T12:00:00.000Z''"]
  by (simp add: example_company_key empty_database_def)

lemma bound_row_scraped_at: "col_scraped_at (bound_row now_iso c) = scraped_at c"
  by (simp add: bound_row_def)

lemma example_company_scraped_at: "scraped_at (example_company nm fin ts) = ts"
  by (simp add: example_company_def)

text \<open>An instance on the example cache, fetched at noon of 1 January 2024.\<close>

theorem freshness_decision_witness:
  "\<exists>row. companies example_cache example_key = Some row
     \<and> example_julianday (col_scraped_at row) = Some 2460311
     \<and> cache_decision example_julianday (2460311 + 6) DEFAULT_CONFIG example_cache example_key False
         = Serve (rowToCompany row)
     \<and> cache_decision example_julianday (2460311 + 8) DEFAULT_CONFIG example_cache example_key False
         = Fetch
     \<and> cache_decision example_julianday 2460311 DEFAULT_CONFIG example_cache example_key True
         = Fetch"
proof -
  let ?row = "bound_row ''2024-01-01T12:00:01.000Z''
             (example_company ''Old Name AB'' None ''2024-01-01T12:00:00.000Z'')"
  have jd: "example_julianday (col_scraped_at ?row) = Some 2460311"
    by (simp add: bound_row_scraped_at example_company_scraped_at example_julianday_def)
  show ?thesis
    using freshness_decision [of example_cache example_key example_julianday _ _ _ ?row "2460311"]
      example_cache_row jd
    by blast
qed

lemma on_conflict_keeps_scraped_at:
  "col_scraped_at (on_conflict_update excluded stored) = col_scraped_at stored"
  by (simp add: on_conflict_update_def)

lemma on_conflict_other_columns:
  "on_conflict_update excluded stored =
     excluded\<lparr>col_org_number := col_org_number stored, col_scraped_at := col_scraped_at stored\<rparr>"
  by (simp add: on_conflict_update_def)

lemma refetch_row:
  "companies (snd (saveCompany True now_iso (example_company nm fin ts) example_cache)) example_key =
     Some (on_conflict_update (bound_row now_iso (example_company nm fin ts))
             (bound_row ''2024-01-01T12:00:01.000Z''
                (example_company ''Old Name AB'' None ''2024-01-01T12:00:00.000Z'')))"
  using saved_row [OF refetch_ok, of now_iso "example_company nm fin ts" example_cache]
  by (simp add: example_company_key example_cache_row)

lemma bound_row_name: "col_name (bound_row now_iso c) = name c"
  by (simp add: bound_row_def)

lemma on_conflict_name: "col_name (on_conflict_update excluded stored) = col_name excluded"
  by (simp add: on_conflict_update_def)

lemma rowToCompany_scraped_at: "scraped_at (rowToCompany row) = col_scraped_at row"
  by (simp add: rowToCompany_def)

lemma rowToCompany_name: "name (rowToCompany row) = col_name row"
  by (simp add: rowToCompany_def)

lemma example_company_name: "name (example_company nm fin ts) = nm"
  by (simp add: example_company_def)

text \<open>
  Claim C2 fails on the code. The example cache holds a record fetched on 1 January
  2024; a record re-fetched on 1 February 2024 is saved over it, and the save
  completes (the new name has as many words as the old one, and the trigger of the
  full-text index goes through). The get that follows
  returns the new name but the fetch timestamp of January: the \<^verbatim>\<open>DO UPDATE SET\<close> list of
  \<^verbatim>\<open>saveCompany\<close> assigns every column but \<^verbatim>\<open>scraped_at\<close>. So the record just re-fetched
  is still stale, and the next request fetches again.
\<close>

theorem refetch_keeps_old_timestamp:
  "fst (saveCompany True ''2024-02-01T12:00:01.000Z''
          (example_company ''New Name AB'' None ''2024-02-01T12:00:00.000Z'') example_cache) = None
   \<and> map_option name
     (getCompany (snd (saveCompany True ''2024-02-01T12:00:01.000Z''
        (example_company ''New Name AB'' None ''2024-02-01T12:00:00.000Z'') example_cache))
        example_key) = Some ''New Name AB''
   \<and> map_option scraped_at
     (getCompany (snd (saveCompany True ''2024-02-01T12:00:01.000Z''
        (example_company ''New Name AB'' None ''2024-02-01T12:00:00.000Z'') example_cache))
        example_key) = Some ''2024-01-01T12:00:00.000Z''
   \<and> cache_decision example_julianday 2460342 DEFAULT_CONFIG
       (snd (saveCompany True ''2024-02-01T12:00:01.000Z''
          (example_company ''New Name AB'' None ''2024-02-01T12:00:00.000Z'') example_cache))
       example_key False = Fetch"
  by (simp add: getCompany_def refetch_ok refetch_row rowToCompany_scraped_at rowToCompany_name
      on_conflict_keeps_scraped_at on_conflict_name bound_row_name bound_row_scraped_at
      example_company_name example_company_scraped_at cache_decision_unfold age_days_def
      example_julianday_def DEFAULT_CONFIG_def)

lemma example_person_key: "p_org_number example_person = example_key"
  by (simp add: example_person_def)

lemma example_cache_people:
  "map (\<lambda>row. (pcol_org_number row, pcol_name row)) (people example_cache) =
     [(example_key, ''Anna Andersson'')]"
proof -
  let ?db0 = "snd (saveCompany True ''2024-01-01T12:00:01.000Z''
               (example_company ''Old Name AB'' None ''2024-01-01T12:00:00.000Z'') empty_database)"
  have p0: "people ?db0 = []"
    by (simp add: saveCompany_people empty_database_def)
  have c0: "companies ?db0 example_key \<noteq> None"
    using saved_row [OF first_save_ok, of True "''2024-01-01T12:00:01.000Z''" "''Old Name AB''" None
        "''2024-01-01T12:00:00.000Z''"]
    by (simp add: example_company_key)
  have "snd (saveBoardMembers ''2024-01-01T12:00:01.000Z'' example_key [example_person] ?db0) =
      insert_person ''2024-01-01T12:00:01.000Z'' (?db0\<lparr>people := []\<rparr>) example_person"
    using p0 c0 by (simp add: saveBoardMembers_def Let_def example_person_key)
  then have "people example_cache =
      people (insert_person ''2024-01-01T12:00:01.000Z'' (?db0\<lparr>people := []\<rparr>) example_person)"
    by (simp add: example_cache_def)
  then show ?thesis
    by (simp add: insert_person_def example_person_def)
qed

lemma getBoardMembers_names:
  "map p_name (getBoardMembers db k) =
     map snd (filter (\<lambda>kv. fst kv = k) (map (\<lambda>row. (pcol_org_number row, pcol_name row)) (people db)))"
  by (induction "people db" arbitrary: db) (simp_all add: getBoardMembers_def rowToPerson_def filter_map comp_def)

lemma getBoardMembers_after_clear:
  "getBoardMembers (snd (saveBoardMembers now_iso k [] db)) k = []"
  by (simp add: saveBoardMembers_def getBoardMembers_def Let_def)

lemma example_input_parsed:
  "SearchCompanyByOrgNumberInput
     \<lparr>arg_org_number = ''5566313788'', arg_force_refresh = None, arg_include_board = Some True\<rparr>
   = Inr (example_key, False, True)"
  by (simp add: SearchCompanyByOrgNumberInput_def schema_example_plain example_key_def)

lemma example_cache_stale:
  "cache_decision example_julianday 2460342 DEFAULT_CONFIG example_cache example_key False = Fetch"
  by (simp add: cache_decision_unfold example_cache_row age_days_def bound_row_scraped_at
      example_company_scraped_at example_julianday_def DEFAULT_CONFIG_def)

text \<open>
  Claim C5 fails on the code. The example cache holds one person for the key. A
  request on 1 February finds the record stale and fetches; the fetch succeeds with
  people requested and finds none, and the record is saved (the trigger of the
  full-text index goes through). \<^verbatim>\<open>searchCompanyByOrgNumber\<close> calls \<^verbatim>\<open>saveBoardMembers\<close>
  only for a non-empty list, so the stored person survives, while the reply lists no
  person. The sibling \<^verbatim>\<open>updateCompanyData\<close>, which calls it unconditionally, leaves no
  row on the same input.
\<close>

theorem zero_people_fetch_keeps_old_rows:
  "map p_name (getBoardMembers
      (snd (searchCompanyByOrgNumber example_julianday 2460342 ''2024-02-01T12:00:01.000Z''
              DEFAULT_CONFIG True example_refetch
              \<lparr>arg_org_number = ''5566313788'', arg_force_refresh = None,
                arg_include_board = Some True\<rparr>
              example_cache))
      example_key) = [''Anna Andersson'']
   \<and> map_sum id reply_board_members
       (fst (searchCompanyByOrgNumber example_julianday 2460342 ''2024-02-01T12:00:01.000Z''
              DEFAULT_CONFIG True example_refetch
              \<lparr>arg_org_number = ''5566313788'', arg_force_refresh = None,
                arg_include_board = Some True\<rparr>
              example_cache)) = Inr (Some [])
   \<and> getBoardMembers
       (snd (updateCompanyData ''2024-02-01T12:00:01.000Z'' True example_refetch ''5566313788''
               example_cache))
       example_key = []"
proof -
  let ?c = "example_company ''New Name AB'' None ''2024-02-01T12:00:00.000Z''"
  let ?saved = "example_cache\<lparr>companies := (companies example_cache)(org_number ?c \<mapsto>
        (case companies example_cache (org_number ?c) of
           None \<Rightarrow> bound_row ''2024-02-01T12:00:01.000Z'' ?c
         | Some stored \<Rightarrow> on_conflict_update (bound_row ''2024-02-01T12:00:01.000Z'' ?c) stored))\<rparr>"
  have s: "saveCompany True ''2024-02-01T12:00:01.000Z'' ?c example_cache = (None, ?saved)"
    by (rule saveCompany_done)
  have people: "people ?saved = people example_cache"
    by simp
  have a: "searchCompanyByOrgNumber example_julianday 2460342 ''2024-02-01T12:00:01.000Z''
              DEFAULT_CONFIG True example_refetch
              \<lparr>arg_org_number = ''5566313788'', arg_force_refresh = None,
                arg_include_board = Some True\<rparr>
              example_cache =
        (Inr \<lparr>success = True, cached = False,
               reply_company = example_company ''New Name AB'' None ''2024-02-01T12:00:00.000Z'',
               reply_board_members = Some []\<rparr>,
         ?saved)"
    by (simp add: searchCompanyByOrgNumber_def example_input_parsed example_cache_stale
        example_refetch_def s)
  have b: "updateCompanyData ''2024-02-01T12:00:01.000Z'' True example_refetch ''5566313788''
              example_cache =
        (Inr (example_company ''New Name AB'' None ''2024-02-01T12:00:00.000Z'', []),
         snd (saveBoardMembers ''2024-02-01T12:00:01.000Z'' example_key [] ?saved))"
    by (simp add: updateCompanyData_def schema_example_plain example_refetch_def example_key_def
        saveBoardMembers_def Let_def s)
  show ?thesis
    unfolding a b
    by (simp add: getBoardMembers_names example_cache_people getBoardMembers_after_clear)
qed

section \<open>Properties of the session pool\<close>


lemma remove_all_ages:
  "contextAge (foldl close_and_remove p cs) = filter (\<lambda>kv. fst kv \<notin> set cs) (contextAge p)"
  by (induction cs arbitrary: p)
    (auto simp: close_and_remove_def AList.delete_eq case_prod_beta intro: filter_cong)

lemma remove_all_closed:
  "closed_contexts (foldl close_and_remove p cs) = closed_contexts p @ cs"
  by (induction cs arbitrary: p) (auto simp: close_and_remove_def)


lemma cleanup_eq: "cleanupOldContexts now p = foldl close_and_remove p (expired now p)"
  by (simp add: cleanupOldContexts_def expired_def)




lemma initialize_fields:
  "contexts (initialize p) = contexts p" "contextAge (initialize p) = contextAge p"
  "next_context (initialize p) = next_context p" "closed_contexts (initialize p) = closed_contexts p"
  "browser (initialize p)"
  by (simp_all add: initialize_def)

lemma expired_initialize: "expired now (initialize p) = expired now p"
  by (simp add: expired_def initialize_fields)

























text \<open>The methods, run without any other call in between, are lists of the actions.\<close>

lemma close_actions:
  "pool_run p (map Close cs) = p\<lparr>closed_contexts := closed_contexts p @ cs\<rparr>"
  unfolding pool_run_def by (induction cs arbitrary: p) simp_all

lemma run_append: "pool_run p (as @ bs) = pool_run (pool_run p as) bs"
  by (simp add: pool_run_def)

lemma closeAll_actions: "closeAll p = pool_run p (map Close (contexts p) @ [Reset])"
  by (simp add: run_append close_actions) (simp add: pool_run_def closeAll_def)

lemma restart_actions:
  "restart p = pool_run p (map Close (contexts p) @ [Reset, Reset, SetBrowser])"
  by (simp add: run_append close_actions)
    (simp add: pool_run_def restart_def closeAll_def initialize_def)

lemma cleanup_actions: "cleanupOldContexts now p = pool_run p (map Remove (expired now p))"
proof -
  have "foldl close_and_remove q cs = pool_run q (map Remove cs)" for q cs
    unfolding pool_run_def by (induction cs arbitrary: q) simp_all
  then show ?thesis
    by (simp add: cleanup_eq)
qed

lemma release_action: "releaseContext now c p = pool_run p [Release now c]"
  by (simp add: pool_run_def)

lemma acquire_actions:
  "snd (acquireContext now now' p) =
     (let p1 = pool_run p ((if browser p then [] else [SetBrowser]) @ map Remove (expired now p))
      in if length (contexts p1) < maxContexts
         then pool_run p1 [Allocate, Push (next_context p1) now'] else p1)"
proof -
  have i: "initialize p = pool_run p (if browser p then [] else [SetBrowser])"
    by (simp add: initialize_def pool_run_def)
  have p1: "cleanupOldContexts now (initialize p)
      = pool_run p ((if browser p then [] else [SetBrowser]) @ map Remove (expired now p))"
    by (simp only: run_append i [symmetric] cleanup_actions expired_initialize)
  show ?thesis
    unfolding acquireContext_def p1
    by (simp add: Let_def createContext_def pool_run_def)
qed
















section \<open>Properties of the retry wrapper and the fetch orchestrator\<close>

lemma retry_success:
  assumes "operation s = (Inr v, s1)" and "attempt \<le> maxAttempts"
  shows "withRetry_from operation maxAttempts names onRetry backoff_wait attempt s = (Inr v, s1)"
  using assms by (subst withRetry_from.simps) simp

lemma retry_fatal:
  assumes "operation s = (Inl e, s1)" and "attempt \<le> maxAttempts"
    and "attempt = maxAttempts \<or> error_name e \<notin> set names"
  shows "withRetry_from operation maxAttempts names onRetry backoff_wait attempt s = (Inl e, s1)"
  using assms by (subst withRetry_from.simps) auto

lemma retry_again:
  assumes "operation s = (Inl e, s1)" and "attempt < maxAttempts"
    and "error_name e \<in> set names"
  shows "withRetry_from operation maxAttempts names onRetry backoff_wait attempt s =
         withRetry_from operation maxAttempts names onRetry backoff_wait (attempt + 1)
           (backoff_wait attempt (onRetry attempt e s1))"
  using assms by (subst withRetry_from.simps) simp

lemma retry_first_of_three:
  assumes "operation s = (Inl e, s1)" and "error_name e \<in> set names"
  shows "withRetry operation 3 names onRetry backoff_wait s =
         withRetry_from operation 3 names onRetry backoff_wait 2 (backoff_wait 1 (onRetry 1 e s1))"
  unfolding withRetry_def using assms by (subst withRetry_from.simps) (simp add: numeral_2_eq_2)

lemma retry_second_of_three:
  assumes "operation s = (Inl e, s1)" and "error_name e \<in> set names"
  shows "withRetry_from operation 3 names onRetry backoff_wait 2 s =
         withRetry_from operation 3 names onRetry backoff_wait 3 (backoff_wait 2 (onRetry 2 e s1))"
  using assms by (subst withRetry_from.simps) simp

lemma retry_third_of_three:
  assumes "operation s = (Inl e, s1)"
  shows "withRetry_from operation 3 names onRetry backoff_wait 3 s = (Inl e, s1)"
  using assms by (subst withRetry_from.simps) simp

lemma retry_not_retryable:
  assumes "operation s = (Inl e, s1)" and "error_name e \<notin> set names"
  shows "withRetry operation 3 names onRetry backoff_wait s = (Inl e, s1)"
  unfolding withRetry_def using assms by (subst withRetry_from.simps) simp

lemma example_key_normal: "normalizeOrgNumber example_key = Inr example_key"
  by (simp add: example_key_def normalizeOrgNumber_def strip_non_digits_def is_digit_def format_org_def)

lemma flagged_run:
  "doScrape cfg (\<lambda>n. flagged_view) k ib w =
     (Inl (ScraperError ''Company Example AB has warning remarks'' False),
      w\<lparr>attempts := Suc (attempts w),
        pool := snd (acquireContext 0 0 (pool w)),
        trace := trace w @ [Searching]\<rparr>)"
  by (simp add: doScrape_def searchCompany_def log_event_def flagged_view_def ok_view_def
      case_prod_beta Let_def)

lemma occurrences_log:
  "occurrences e (log_event e' w) = (if e' = e then Suc (occurrences e w) else occurrences e w)"
  by (simp add: occurrences_def log_event_def)

lemma occurrences_pool: "occurrences e (w\<lparr>pool := p\<rparr>) = occurrences e w"
  by (simp add: occurrences_def)

lemma occurrences_attempts: "occurrences e (w\<lparr>attempts := n\<rparr>) = occurrences e w"
  by (simp add: occurrences_def)

lemma doScrape_search_error:
  assumes "searchCompany (site (attempts w)) k = Inl e"
  shows "doScrape cfg site k ib w =
     (Inl e, w\<lparr>attempts := Suc (attempts w),
               pool := snd (acquireContext (t_cleanup (site (attempts w)))
                              (t_create (site (attempts w))) (pool w)),
               trace := trace w @ [Searching]\<rparr>)"
  using assms by (simp add: doScrape_def log_event_def case_prod_beta Let_def)

lemma doScrape_not_found:
  assumes "searchCompany (site (attempts w)) k = Inr None"
  shows "doScrape cfg site k ib w =
     (Inl (NoSuchCompanyError k),
      w\<lparr>attempts := Suc (attempts w),
        pool := snd (acquireContext (t_cleanup (site (attempts w)))
                       (t_create (site (attempts w))) (pool w)),
        trace := trace w @ [Searching]\<rparr>)"
  using assms by (simp add: doScrape_def log_event_def case_prod_beta Let_def)

lemma doScrape_limit:
  assumes "searchCompany (site (attempts w)) k = Inr (Some url)"
    and "limit_text (site (attempts w))"
  shows "doScrape cfg site k ib w =
     (Inl (ScraperError ''Search limit reached on merinfo.se'' True),
      w\<lparr>attempts := Suc (attempts w),
        pool := snd (acquireContext (t_cleanup (site (attempts w)))
                       (t_create (site (attempts w))) (pool w)),
        trace := trace w @ [Searching, LimitCheck]\<rparr>)"
  using assms by (simp add: doScrape_def log_event_def case_prod_beta Let_def)

lemma doScrape_no_restart:
  "occurrences PoolRestart (snd (doScrape cfg site k ib w)) = occurrences PoolRestart w"
  by (simp add: doScrape_def log_event_def occurrences_def case_prod_beta Let_def
      split: sum.splits option.splits)

lemma doScrape_counts:
  "attempts (snd (doScrape cfg site k ib w)) = Suc (attempts w)"
  by (simp add: doScrape_def log_event_def case_prod_beta Let_def
      split: sum.splits option.splits)

lemma onRetry_restarts:
  "occurrences PoolRestart (scrape_onRetry attempt e w) =
     (if attempt \<ge> 2 then Suc (occurrences PoolRestart w) else occurrences PoolRestart w)"
  by (simp add: scrape_onRetry_def Let_def occurrences_log occurrences_pool)

lemma searchCompany_flagged:
  assumes "goto_error v = None" and "results_rendered v" and "matching_card v = Some crd"
    and "hasWarning crd" and "company_link crd = Some (nm, h)"
  shows "searchCompany v k = Inl (ScraperError (''Company '' @ nm @ '' has warning remarks'') False)"
  using assms by (simp add: searchCompany_def)

lemma searchCompany_no_card:
  assumes "goto_error v = None" and "\<not> results_rendered v \<or> matching_card v = None"
  shows "searchCompany v k = Inr None"
  using assms by (auto simp: searchCompany_def)

text \<open>
  Claim C6, as the code has it. Let the key be valid and the first run of \<^verbatim>\<open>doScrape\<close>
  fail with an error named \<^verbatim>\<open>ScraperError\<close> or \<^verbatim>\<open>TimeoutError\<close>. If the second run
  succeeds, \<^verbatim>\<open>scrapeCompany\<close> returns the second run's data and the pool's \<^verbatim>\<open>restart\<close> is
  not invoked at all: \<^verbatim>\<open>onRetry\<close> receives the number of the failed attempt, 1, and
  restarts only from 2 on. If the second run fails in the same way and the third
  succeeds, the third run's data is returned and \<^verbatim>\<open>restart\<close> is invoked exactly once.
\<close>

theorem retry_restart_count:
  assumes norm: "normalizeOrgNumber org_no = Inr k"
    and first: "doScrape cfg site k ib w = (Inl e1, w1)"
    and r1: "error_name e1 \<in> set [''ScraperError'', ''TimeoutError'']"
  shows "(\<forall>result w2.
            doScrape cfg site k ib (log_event (BackoffWait 1) (scrape_onRetry 1 e1 w1)) = (Inr result, w2)
            \<longrightarrow> scrapeCompany cfg site org_no ib w = (Inr result, w2)
                \<and> occurrences PoolRestart w2 = occurrences PoolRestart w)
     \<and> (\<forall>e2 w2 result w3.
            doScrape cfg site k ib (log_event (BackoffWait 1) (scrape_onRetry 1 e1 w1)) = (Inl e2, w2)
            \<and> error_name e2 \<in> set [''ScraperError'', ''TimeoutError'']
            \<and> doScrape cfg site k ib (log_event (BackoffWait 2) (scrape_onRetry 2 e2 w2)) = (Inr result, w3)
            \<longrightarrow> scrapeCompany cfg site org_no ib w = (Inr result, w3)
                \<and> occurrences PoolRestart w3 = Suc (occurrences PoolRestart w))"
proof -
  let ?op = "doScrape cfg site k ib"
  let ?names = "[''ScraperError'', ''TimeoutError'']"
  let ?wait = "\<lambda>attempt. log_event (BackoffWait attempt)"
  let ?s1 = "log_event (BackoffWait 1) (scrape_onRetry 1 e1 w1)"
  have start: "scrapeCompany cfg site org_no ib w =
      withRetry_from ?op 3 ?names scrape_onRetry ?wait 2 ?s1"
    using retry_first_of_three [of ?op w e1 w1 ?names scrape_onRetry ?wait] first r1 norm
    by (simp add: scrapeCompany_def)
  have w1: "occurrences PoolRestart w1 = occurrences PoolRestart w"
    using doScrape_no_restart [of cfg site k ib w] first by simp
  have s1: "occurrences PoolRestart ?s1 = occurrences PoolRestart w"
    by (simp add: occurrences_log onRetry_restarts w1)
  have one: "\<forall>result w2. ?op ?s1 = (Inr result, w2)
            \<longrightarrow> scrapeCompany cfg site org_no ib w = (Inr result, w2)
                \<and> occurrences PoolRestart w2 = occurrences PoolRestart w"
  proof (intro allI impI)
    fix result w2
    assume ok: "?op ?s1 = (Inr result, w2)"
    have "withRetry_from ?op 3 ?names scrape_onRetry ?wait 2 ?s1 = (Inr result, w2)"
      using ok by (intro retry_success) simp_all
    moreover have "occurrences PoolRestart w2 = occurrences PoolRestart ?s1"
      using doScrape_no_restart [of cfg site k ib ?s1] ok by simp
    ultimately show "scrapeCompany cfg site org_no ib w = (Inr result, w2)
                \<and> occurrences PoolRestart w2 = occurrences PoolRestart w"
      using start s1 by simp
  qed
  have two: "\<forall>e2 w2 result w3.
            ?op ?s1 = (Inl e2, w2) \<and> error_name e2 \<in> set ?names
            \<and> ?op (log_event (BackoffWait 2) (scrape_onRetry 2 e2 w2)) = (Inr result, w3)
            \<longrightarrow> scrapeCompany cfg site org_no ib w = (Inr result, w3)
                \<and> occurrences PoolRestart w3 = Suc (occurrences PoolRestart w)"
  proof (intro allI impI)
    fix e2 w2 result w3
    let ?s2 = "log_event (BackoffWait 2) (scrape_onRetry 2 e2 w2)"
    assume a: "?op ?s1 = (Inl e2, w2) \<and> error_name e2 \<in> set ?names \<and> ?op ?s2 = (Inr result, w3)"
    have "withRetry_from ?op 3 ?names scrape_onRetry ?wait 2 ?s1 =
        withRetry_from ?op 3 ?names scrape_onRetry ?wait 3 ?s2"
      using a by (intro retry_second_of_three) simp_all
    moreover have "withRetry_from ?op 3 ?names scrape_onRetry ?wait 3 ?s2 = (Inr result, w3)"
      using a by (intro retry_success) simp_all
    moreover have "occurrences PoolRestart w2 = occurrences PoolRestart ?s1"
      using doScrape_no_restart [of cfg site k ib ?s1] a by simp
    moreover have "occurrences PoolRestart w3 = occurrences PoolRestart ?s2"
      using doScrape_no_restart [of cfg site k ib ?s2] a by simp
    ultimately show "scrapeCompany cfg site org_no ib w = (Inr result, w3)
                \<and> occurrences PoolRestart w3 = Suc (occurrences PoolRestart w)"
      using start s1 by (simp add: occurrences_log onRetry_restarts)
  qed
  show ?thesis
    using one two by blast
qed

lemma timeout_run:
  assumes "site (attempts w) = timeout_view"
  shows "doScrape cfg site k ib w =
     (Inl (TimeoutError ''Timeout 10000ms exceeded''),
      w\<lparr>attempts := Suc (attempts w),
        pool := snd (acquireContext 0 0 (pool w)),
        trace := trace w @ [Searching, LimitCheck, DetailScrape]\<rparr>)"
  using assms
  by (simp add: doScrape_def searchCompany_def log_event_def timeout_view_def ok_view_def
      starts_with_def case_prod_beta Let_def)

lemma ok_run:
  assumes "site (attempts w) = ok_view"
  shows "doScrape DEFAULT_CONFIG site k True w =
     (Inr (example_company ''New Name AB'' None ''2024-02-01T12:00:00.000Z'', []),
      w\<lparr>attempts := Suc (attempts w),
        pool := releaseContext 1000 (fst (acquireContext 0 0 (pool w)))
                  (snd (acquireContext 0 0 (pool w))),
        trace := trace w @ [Searching, LimitCheck, DetailScrape, BoardScrape]\<rparr>)"
  using assms
  by (simp add: doScrape_def searchCompany_def log_event_def ok_view_def DEFAULT_CONFIG_def
      starts_with_def case_prod_beta Let_def)

lemma limit_search: "searchCompany limit_view k = Inr None"
  by (simp add: searchCompany_def limit_view_def ok_view_def)

lemma onRetry_attempts: "attempts (scrape_onRetry n e w) = attempts w"
  by (simp add: scrape_onRetry_def log_event_def Let_def)

lemma log_attempts: "attempts (log_event e w) = attempts w"
  by (simp add: log_event_def)

lemma timeout_retryable:
  "error_name (TimeoutError m) \<in> set [''ScraperError'', ''TimeoutError'']"
  by simp

lemma quota_retryable:
  "error_name (ScraperError m True) \<in> set [''ScraperError'', ''TimeoutError'']"
  by simp

lemma flagged_retryable:
  "error_name (ScraperError m False) \<in> set [''ScraperError'', ''TimeoutError'']"
  by simp

lemma not_found_fatal:
  "error_name (NoSuchCompanyError m) \<notin> set [''ScraperError'', ''TimeoutError'']"
  by simp

text \<open>
  Claim C3 fails on the code. The search result shows the warning on every run. Each
  run ends in the flagged error and none enters the detail step, but the retry wrapper
  reads only the error's name, \<^verbatim>\<open>ScraperError\<close>, not its \<^verbatim>\<open>retryable\<close> field: the
  operation is run three times, with a restart of the pool before the third run.
\<close>

theorem flagged_fetch_is_retried:
  "fst (scrapeCompany DEFAULT_CONFIG (\<lambda>n. flagged_view) example_key True new_world) =
     Inl (ScraperError ''Company Example AB has warning remarks'' False)
   \<and> attempts (snd (scrapeCompany DEFAULT_CONFIG (\<lambda>n. flagged_view) example_key True new_world)) = 3
   \<and> trace (snd (scrapeCompany DEFAULT_CONFIG (\<lambda>n. flagged_view) example_key True new_world)) =
       [Searching, RetryWarning 1, BackoffWait 1, Searching, RetryWarning 2, PoolRestart,
        BackoffWait 2, Searching]"
proof -
  let ?F = "ScraperError ''Company Example AB has warning remarks'' False"
  let ?op = "doScrape DEFAULT_CONFIG (\<lambda>n. flagged_view) example_key True"
  let ?names = "[''ScraperError'', ''TimeoutError'']"
  let ?wait = "\<lambda>attempt. log_event (BackoffWait attempt)"
  let ?step = "\<lambda>w. w\<lparr>attempts := Suc (attempts w), pool := snd (acquireContext 0 0 (pool w)),
                      trace := trace w @ [Searching]\<rparr>"
  let ?s1 = "log_event (BackoffWait 1) (scrape_onRetry 1 ?F (?step new_world))"
  let ?s2 = "log_event (BackoffWait 2) (scrape_onRetry 2 ?F (?step ?s1))"
  have run: "\<And>w. ?op w = (Inl ?F, ?step w)"
    by (rule flagged_run)
  have "scrapeCompany DEFAULT_CONFIG (\<lambda>n. flagged_view) example_key True new_world =
      withRetry ?op 3 ?names scrape_onRetry ?wait new_world"
    by (simp add: scrapeCompany_def example_key_normal)
  also have "\<dots> = withRetry_from ?op 3 ?names scrape_onRetry ?wait 2 ?s1"
    by (rule retry_first_of_three [OF run flagged_retryable])
  also have "\<dots> = withRetry_from ?op 3 ?names scrape_onRetry ?wait 3 ?s2"
    by (rule retry_second_of_three [OF run flagged_retryable])
  also have "\<dots> = (Inl ?F, ?step ?s2)"
    by (rule retry_third_of_three [OF run])
  finally have all: "scrapeCompany DEFAULT_CONFIG (\<lambda>n. flagged_view) example_key True new_world =
      (Inl ?F, ?step ?s2)" .
  show ?thesis
    unfolding all
    by (simp add: log_event_def scrape_onRetry_def new_world_def Let_def)
qed

text \<open>
  Claim C4 fails on the code. The page shows the search-limit message and no result
  card. \<^verbatim>\<open>doScrape\<close> tests for the missing result before it looks for the limit
  message, so the fetch ends as "not found" after one run and the limit check is
  never reached.
\<close>

theorem limit_page_reported_not_found:
  "limit_text limit_view
   \<and> fst (scrapeCompany DEFAULT_CONFIG (\<lambda>n. limit_view) example_key True new_world) =
       Inl (NoSuchCompanyError example_key)
   \<and> attempts (snd (scrapeCompany DEFAULT_CONFIG (\<lambda>n. limit_view) example_key True new_world)) = 1
   \<and> trace (snd (scrapeCompany DEFAULT_CONFIG (\<lambda>n. limit_view) example_key True new_world)) =
       [Searching]"
proof -
  let ?op = "doScrape DEFAULT_CONFIG (\<lambda>n. limit_view) example_key True"
  have run: "?op new_world =
      (Inl (NoSuchCompanyError example_key),
       new_world\<lparr>attempts := Suc (attempts new_world),
         pool := snd (acquireContext (t_cleanup limit_view) (t_create limit_view) (pool new_world)),
         trace := trace new_world @ [Searching]\<rparr>)"
    by (rule doScrape_not_found) (rule limit_search)
  have "scrapeCompany DEFAULT_CONFIG (\<lambda>n. limit_view) example_key True new_world =
      withRetry ?op 3 [''ScraperError'', ''TimeoutError''] scrape_onRetry
        (\<lambda>attempt. log_event (BackoffWait attempt)) new_world"
    by (simp add: scrapeCompany_def example_key_normal)
  also have "\<dots> = (Inl (NoSuchCompanyError example_key),
       new_world\<lparr>attempts := Suc (attempts new_world),
         pool := snd (acquireContext (t_cleanup limit_view) (t_create limit_view) (pool new_world)),
         trace := trace new_world @ [Searching]\<rparr>)"
    by (rule retry_not_retryable [of ?op new_world, OF run not_found_fatal])
  finally show ?thesis
    by (simp add: new_world_def limit_view_def)
qed

lemma quota_run:
  assumes "site (attempts w) = quota_view"
  shows "doScrape cfg site k ib w =
     (Inl (ScraperError ''Search limit reached on merinfo.se'' True),
      w\<lparr>attempts := Suc (attempts w),
        pool := snd (acquireContext 0 0 (pool w)),
        trace := trace w @ [Searching, LimitCheck]\<rparr>)"
  using assms
  by (simp add: doScrape_def searchCompany_def log_event_def quota_view_def ok_view_def
      starts_with_def case_prod_beta Let_def)

lemma after_retry_attempts:
  "attempts (log_event ev (scrape_onRetry n e (snd (doScrape cfg site k ib w)))) = Suc (attempts w)"
  by (simp add: log_attempts onRetry_attempts doScrape_counts)

lemma pair_collapse: "fst x = a \<Longrightarrow> x = (a, snd x)"
  by auto

text \<open>
  Two instances: one failure (the search-limit error) then success, with no restart;
  two failures (timeouts) then success, with one restart.
\<close>

theorem retry_restart_count_witness:
  "fst (scrapeCompany DEFAULT_CONFIG (site_then 1 quota_view ok_view) example_key True new_world) =
     Inr (example_company ''New Name AB'' None ''2024-02-01T12:00:00.000Z'', [])
   \<and> occurrences PoolRestart
       (snd (scrapeCompany DEFAULT_CONFIG (site_then 1 quota_view ok_view) example_key True new_world)) = 0
   \<and> fst (scrapeCompany DEFAULT_CONFIG (site_then 2 timeout_view ok_view) example_key True new_world) =
     Inr (example_company ''New Name AB'' None ''2024-02-01T12:00:00.000Z'', [])
   \<and> occurrences PoolRestart
       (snd (scrapeCompany DEFAULT_CONFIG (site_then 2 timeout_view ok_view) example_key True new_world)) = 1"
proof -
  let ?C = "example_company ''New Name AB'' None ''2024-02-01T12:00:00.000Z''"
  let ?Q = "ScraperError ''Search limit reached on merinfo.se'' True"
  let ?T = "TimeoutError ''Timeout 10000ms exceeded''"
  let ?A = "site_then 1 quota_view ok_view"
  let ?B = "site_then 2 timeout_view ok_view"
  let ?opA = "doScrape DEFAULT_CONFIG ?A example_key True"
  let ?opB = "doScrape DEFAULT_CONFIG ?B example_key True"
  have zero: "occurrences PoolRestart new_world = 0" and at0: "attempts new_world = 0"
    by (simp_all add: occurrences_def new_world_def)
  \<comment> \<open>one retryable failure, then success\<close>
  let ?a1 = "log_event (BackoffWait 1) (scrape_onRetry 1 ?Q (snd (?opA new_world)))"
  have firstA: "?opA new_world = (Inl ?Q, snd (?opA new_world))"
    by (rule pair_collapse) (simp add: quota_run site_then_def at0)
  have "attempts ?a1 = 1"
    by (simp add: after_retry_attempts at0)
  then have secondA: "?opA ?a1 = (Inr (?C, []), snd (?opA ?a1))"
    by (intro pair_collapse) (simp add: ok_run site_then_def)
  have A: "scrapeCompany DEFAULT_CONFIG ?A example_key True new_world = (Inr (?C, []), snd (?opA ?a1))
      \<and> occurrences PoolRestart (snd (?opA ?a1)) = occurrences PoolRestart new_world"
    by (rule retry_restart_count [OF example_key_normal firstA quota_retryable,
          THEN conjunct1, rule_format, OF secondA])
  \<comment> \<open>two retryable failures, then success\<close>
  let ?b1 = "log_event (BackoffWait 1) (scrape_onRetry 1 ?T (snd (?opB new_world)))"
  let ?b2 = "log_event (BackoffWait 2) (scrape_onRetry 2 ?T (snd (?opB ?b1)))"
  have firstB: "?opB new_world = (Inl ?T, snd (?opB new_world))"
    by (rule pair_collapse) (simp add: timeout_run site_then_def at0)
  have b1: "attempts ?b1 = 1"
    by (simp add: after_retry_attempts at0)
  then have secondB: "?opB ?b1 = (Inl ?T, snd (?opB ?b1))"
    by (intro pair_collapse) (simp add: timeout_run site_then_def)
  have "attempts ?b2 = 2"
    by (simp add: after_retry_attempts at0)
  then have thirdB: "?opB ?b2 = (Inr (?C, []), snd (?opB ?b2))"
    by (intro pair_collapse) (simp add: ok_run site_then_def)
  have B: "scrapeCompany DEFAULT_CONFIG ?B example_key True new_world = (Inr (?C, []), snd (?opB ?b2))
      \<and> occurrences PoolRestart (snd (?opB ?b2)) = Suc (occurrences PoolRestart new_world)"
    by (rule retry_restart_count [OF example_key_normal firstB timeout_retryable,
          THEN conjunct2, rule_format, OF conjI [OF secondB conjI [OF timeout_retryable thirdB]]])
  show ?thesis
    using A B zero by simp
qed

text \<open>
  Claim C6 as stated fails: the first run times out, the second succeeds, the result
  is the second run's data, and the log holds no restart of the pool.
\<close>

theorem restart_once_counterexample:
  "fst (doScrape DEFAULT_CONFIG (site_then 1 timeout_view ok_view) example_key True new_world) =
     Inl (TimeoutError ''Timeout 10000ms exceeded'')
   \<and> fst (scrapeCompany DEFAULT_CONFIG (site_then 1 timeout_view ok_view) example_key True new_world) =
     Inr (example_company ''New Name AB'' None ''2024-02-01T12:00:00.000Z'', [])
   \<and> trace (snd (scrapeCompany DEFAULT_CONFIG (site_then 1 timeout_view ok_view) example_key True new_world)) =
     [Searching, LimitCheck, DetailScrape, RetryWarning 1, BackoffWait 1,
      Searching, LimitCheck, DetailScrape, BoardScrape]
   \<and> occurrences PoolRestart
       (snd (scrapeCompany DEFAULT_CONFIG (site_then 1 timeout_view ok_view) example_key True new_world)) = 0"
proof -
  let ?C = "example_company ''New Name AB'' None ''2024-02-01T12:00:00.000Z''"
  let ?T = "TimeoutError ''Timeout 10000ms exceeded''"
  let ?S = "site_then 1 timeout_view ok_view"
  let ?op = "doScrape DEFAULT_CONFIG ?S example_key True"
  let ?names = "[''ScraperError'', ''TimeoutError'']"
  let ?wait = "\<lambda>attempt. log_event (BackoffWait attempt)"
  let ?w1 = "new_world\<lparr>attempts := Suc (attempts new_world),
        pool := snd (acquireContext 0 0 (pool new_world)),
        trace := trace new_world @ [Searching, LimitCheck, DetailScrape]\<rparr>"
  let ?s1 = "log_event (BackoffWait 1) (scrape_onRetry 1 ?T ?w1)"
  let ?w2 = "?s1\<lparr>attempts := Suc (attempts ?s1),
        pool := releaseContext 1000 (fst (acquireContext 0 0 (pool ?s1)))
                  (snd (acquireContext 0 0 (pool ?s1))),
        trace := trace ?s1 @ [Searching, LimitCheck, DetailScrape, BoardScrape]\<rparr>"
  have first: "?op new_world = (Inl ?T, ?w1)"
    by (rule timeout_run) (simp add: site_then_def new_world_def)
  have second: "?op ?s1 = (Inr (?C, []), ?w2)"
    by (rule ok_run)
      (simp add: site_then_def new_world_def log_event_def scrape_onRetry_def Let_def)
  have "scrapeCompany DEFAULT_CONFIG ?S example_key True new_world =
      withRetry ?op 3 ?names scrape_onRetry ?wait new_world"
    by (simp add: scrapeCompany_def example_key_normal)
  also have "\<dots> = withRetry_from ?op 3 ?names scrape_onRetry ?wait 2 ?s1"
    by (rule retry_first_of_three [of ?op new_world, OF first timeout_retryable])
  also have "\<dots> = (Inr (?C, []), ?w2)"
    by (rule retry_success [of ?op ?s1, OF second]) simp
  finally have all: "scrapeCompany DEFAULT_CONFIG ?S example_key True new_world = (Inr (?C, []), ?w2)" .
  show ?thesis
    unfolding all first
    by (simp add: occurrences_def log_event_def scrape_onRetry_def new_world_def Let_def)
qed

end
